theory Spec2Isabelle
  imports Main "HOL-Library.AList"
begin

section \<open>Python values and the operations the handler uses\<close>

text \<open>
  The handler of \<^verbatim>\<open>app/handler/response_handler.py\<close> works on parsed JSON: Python
  dictionaries, lists, strings, numbers, booleans and \<^verbatim>\<open>None\<close>. A dictionary is an
  association list in insertion order. Strings are byte strings holding the UTF-8
  encoding of the Python text; numbers are integers.
\<close>

datatype json =
    JNull
  | JBool bool
  | JNum int
  | JStr string
  | JArr "json list"
  | JObj "(string \<times> json) list"

type_synonym dict = "(string \<times> json) list"

text \<open>The exceptions the handler can let escape.\<close>

datatype error =
    KeyError
  | IndexError
  | AttributeError
  | TypeError
  | BinasciiError
  | UploadRaised

text \<open>Sequencing of fallible steps: the first exception ends the computation.\<close>

definition bindE :: "error + 'a \<Rightarrow> ('a \<Rightarrow> error + 'b) \<Rightarrow> error + 'b" where
  "bindE m f = (case m of Inl e \<Rightarrow> Inl e | Inr v \<Rightarrow> f v)"

text \<open>Truth value testing (\<^verbatim>\<open>if x\<close>, \<^verbatim>\<open>not x\<close>, \<^verbatim>\<open>x or y\<close>).\<close>

fun truthy :: "json \<Rightarrow> bool" where
  "truthy JNull = False"
| "truthy (JBool b) = b"
| "truthy (JNum n) = (n \<noteq> 0)"
| "truthy (JStr s) = (s \<noteq> [])"
| "truthy (JArr xs) = (xs \<noteq> [])"
| "truthy (JObj d) = (d \<noteq> [])"

text \<open>\<^verbatim>\<open>d.get(k, default)\<close> on a dictionary.\<close>

definition dict_get :: "dict \<Rightarrow> string \<Rightarrow> json \<Rightarrow> json" where
  "dict_get d k dflt = (case map_of d k of None \<Rightarrow> dflt | Some v \<Rightarrow> v)"

text \<open>\<^verbatim>\<open>x.get(k, default)\<close> on any value: only a dictionary has the method.\<close>

fun py_get :: "json \<Rightarrow> string \<Rightarrow> json \<Rightarrow> error + json" where
  "py_get (JObj d) k dflt = Inr (dict_get d k dflt)"
| "py_get _ k dflt = Inl AttributeError"

text \<open>String tests: \<^verbatim>\<open>s.startswith(p)\<close>, \<^verbatim>\<open>p in s\<close>, \<^verbatim>\<open>s.endswith(p)\<close>.\<close>

fun startswith :: "string \<Rightarrow> string \<Rightarrow> bool" where
  "startswith s [] = True"
| "startswith [] (c # cs) = False"
| "startswith (x # xs) (c # cs) = (x = c \<and> startswith xs cs)"

fun str_contains :: "string \<Rightarrow> string \<Rightarrow> bool" where
  "str_contains [] sub = (sub = [])"
| "str_contains (x # xs) sub = (startswith (x # xs) sub \<or> str_contains xs sub)"

definition endswith :: "string \<Rightarrow> string \<Rightarrow> bool" where
  "endswith s suf = startswith (rev s) (rev suf)"

text \<open>
  \<^verbatim>\<open>k in x\<close> for a string \<open>k\<close>: key membership on a dictionary, element membership on
  a list, substring test on a string, \<^verbatim>\<open>TypeError\<close> on anything else.
\<close>

fun py_in :: "string \<Rightarrow> json \<Rightarrow> error + bool" where
  "py_in k (JObj d) = Inr (map_of d k \<noteq> None)"
| "py_in k (JArr xs) = Inr (JStr k \<in> set xs)"
| "py_in k (JStr s) = Inr (str_contains s k)"
| "py_in k _ = Inl TypeError"

text \<open>\<^verbatim>\<open>x[k]\<close> for a string key \<open>k\<close>.\<close>

fun py_item :: "json \<Rightarrow> string \<Rightarrow> error + json" where
  "py_item (JObj d) k = (case map_of d k of None \<Rightarrow> Inl KeyError | Some v \<Rightarrow> Inr v)"
| "py_item _ k = Inl TypeError"

text \<open>
  \<^verbatim>\<open>x[i]\<close> for a non-negative integer \<open>i\<close>. The keys of a parsed JSON object are strings,
  so an integer key is never found in a dictionary.
\<close>

fun py_index :: "json \<Rightarrow> nat \<Rightarrow> error + json" where
  "py_index (JArr xs) i = (if i < length xs then Inr (xs ! i) else Inl IndexError)"
| "py_index (JStr s) i = (if i < length s then Inr (JStr [s ! i]) else Inl IndexError)"
| "py_index (JObj d) i = Inl KeyError"
| "py_index _ i = Inl TypeError"

text \<open>
  \<^verbatim>\<open>len(x)\<close> and the slice \<^verbatim>\<open>x[i:]\<close>. Slicing a dictionary raises (\<^verbatim>\<open>TypeError\<close> up to
  Python 3.11, \<^verbatim>\<open>KeyError\<close> from 3.12 on); the model says \<^verbatim>\<open>TypeError\<close>.
\<close>

fun py_len :: "json \<Rightarrow> error + nat" where
  "py_len (JArr xs) = Inr (length xs)"
| "py_len (JStr s) = Inr (length s)"
| "py_len (JObj d) = Inr (length d)"
| "py_len _ = Inl TypeError"

fun py_slice_from :: "json \<Rightarrow> nat \<Rightarrow> error + json" where
  "py_slice_from (JArr xs) i = Inr (JArr (drop i xs))"
| "py_slice_from (JStr s) i = Inr (JStr (drop i s))"
| "py_slice_from _ i = Inl TypeError"

text \<open>
  Iteration (\<^verbatim>\<open>for x in v\<close>): the elements of a list, the characters of a string, the
  keys of a dictionary.
\<close>

fun py_iter :: "json \<Rightarrow> error + json list" where
  "py_iter (JArr xs) = Inr xs"
| "py_iter (JStr s) = Inr (map (\<lambda>c. JStr [c]) s)"
| "py_iter (JObj d) = Inr (map (\<lambda>kv. JStr (fst kv)) d)"
| "py_iter _ = Inl TypeError"

text \<open>
  \<^verbatim>\<open>text += s\<close> for a string \<open>s\<close>: concatenation on a string, extension by the characters
  of \<open>s\<close> on a list, \<^verbatim>\<open>TypeError\<close> otherwise.
\<close>

fun py_iadd_str :: "json \<Rightarrow> string \<Rightarrow> error + json" where
  "py_iadd_str (JStr t) s = Inr (JStr (t @ s))"
| "py_iadd_str (JArr xs) s = Inr (JArr (xs @ map (\<lambda>c. JStr [c]) s))"
| "py_iadd_str _ s = Inl TypeError"

text \<open>\<^verbatim>\<open>text += v\<close> where \<open>text\<close> is a string: \<open>v\<close> must be a string too.\<close>

fun str_iadd :: "string \<Rightarrow> json \<Rightarrow> error + string" where
  "str_iadd t (JStr s) = Inr (t @ s)"
| "str_iadd t _ = Inl TypeError"

section \<open>Settings, collaborators and chance\<close>

text \<open>
  The handler reads three settings, calls the upload capability of
  \<^verbatim>\<open>app.utils.uploader\<close>, and uses \<^verbatim>\<open>base64.b64decode\<close>, \<^verbatim>\<open>json.dumps\<close>, the
  string methods \<^verbatim>\<open>lower\<close> and \<^verbatim>\<open>strip\<close>, and the conversion \<^verbatim>\<open>str\<close> of values
  interpolated in f-strings. They are the fields of a
  \<open>world\<close>; the handler's code is verified for every world.
\<close>

text \<open>
  Modelled from the spec: the upload capability of \<^verbatim>\<open>app/utils/uploader.py\<close>, which is
  not part of the sources at hand. The spec gives it as
  \<^verbatim>\<open>upload(bytes, filename) -> {success: true, url} | {success: false, error}\<close>. An
  \<open>uploader\<close> is the \<^verbatim>\<open>upload\<close> method of the object that
  \<^verbatim>\<open>ImageUploaderFactory.create\<close> returns for a provider name (the field
  \<open>create_uploader\<close> of the world, which also holds the credentials the factory
  receives); \<open>url\<close> is \<^verbatim>\<open>upload_response.data.url\<close>. A backend that raises returns
  \<open>Inl\<close>.
\<close>

record upload_response =
  success :: bool
  url :: string

type_synonym uploader = "string \<Rightarrow> string \<Rightarrow> error + upload_response"

record world =
  SHOW_THINKING_PROCESS :: bool
  SHOW_SEARCH_LINK :: bool
  UPLOAD_PROVIDER :: string
  create_uploader :: "string \<Rightarrow> uploader"
  b64decode :: "string \<Rightarrow> error + string"
  json_dumps :: "json \<Rightarrow> string"
  py_repr :: "json \<Rightarrow> string"
  str_lower :: "string \<Rightarrow> string"
  str_strip :: "string \<Rightarrow> string"

text \<open>
  The random draws and clock readings of one call: the \<open>k\<close>-th tool-call identifier
  (\<^verbatim>\<open>random.sample(letters, 32)\<close> joined), the \<open>k\<close>-th upload file name's
  \<^verbatim>\<open>uuid.uuid4().hex\<close>, the completion identifier's \<^verbatim>\<open>uuid.uuid4()\<close>,
  \<^verbatim>\<open>int(time.time())\<close> and \<^verbatim>\<open>time.strftime("%Y/%m/%d")\<close>.
\<close>

record chance =
  random_sample :: "nat \<Rightarrow> string"
  uuid4_hex :: "nat \<Rightarrow> string"
  uuid4_str :: string
  time_now :: int
  strftime_date :: string

text \<open>An interpolated value \<^verbatim>\<open>{v}\<close> of an f-string.\<close>

definition py_format :: "world \<Rightarrow> json \<Rightarrow> string" where
  "py_format w v = (case v of JStr s \<Rightarrow> s | _ \<Rightarrow> py_repr w v)"

text \<open>
  \<^verbatim>\<open>s.lower()\<close> and \<^verbatim>\<open>s.strip()\<close> are Python's own methods on Unicode text, the fields
  \<open>str_lower\<close> and \<open>str_strip\<close> of the world. Only a string has the methods.
\<close>

definition py_lower :: "world \<Rightarrow> json \<Rightarrow> error + string" where
  "py_lower w v = (case v of JStr s \<Rightarrow> Inr (str_lower w s) | _ \<Rightarrow> Inl AttributeError)"

definition py_strip :: "world \<Rightarrow> json \<Rightarrow> error + string" where
  "py_strip w v = (case v of JStr s \<Rightarrow> Inr (str_strip w s) | _ \<Rightarrow> Inl AttributeError)"

section \<open>The fixed texts\<close>

definition NO_RESPONSE :: string where
  "NO_RESPONSE = [CHR 0xE6, CHR 0x9A, CHR 0x82, CHR 0xE6, CHR 0x97, CHR 0xA0,
                  CHR 0xE8, CHR 0xBF, CHR 0x94, CHR 0xE5, CHR 0x9B, CHR 0x9E]"

definition LABEL_CODE :: string where
  "LABEL_CODE = [CHR 0xE3, CHR 0x80, CHR 0x90, CHR 0xE4, CHR 0xBB, CHR 0xA3, CHR 0xE7, CHR 0xA0,
                 CHR 0x81, CHR 0xE6, CHR 0x89, CHR 0xA7, CHR 0xE8, CHR 0xA1, CHR 0x8C, CHR 0xE3,
                 CHR 0x80, CHR 0x91]"

definition LABEL_RESULT :: string where
  "LABEL_RESULT = [CHR 0xE3, CHR 0x80, CHR 0x90, CHR 0xE6, CHR 0x89, CHR 0xA7, CHR 0xE8, CHR 0xA1,
                   CHR 0x8C, CHR 0xE7, CHR 0xBB, CHR 0x93, CHR 0xE6, CHR 0x9E, CHR 0x9C, CHR 0xE3,
                   CHR 0x80, CHR 0x91]"

definition LABEL_OUTPUT :: string where
  "LABEL_OUTPUT = [CHR 0xE3, CHR 0x80, CHR 0x90, CHR 0xE8, CHR 0xBE, CHR 0x93, CHR 0xE5, CHR 0x87,
                   CHR 0xBA, CHR 0xE7, CHR 0xBB, CHR 0x93, CHR 0xE6, CHR 0x9E, CHR 0x9C, CHR 0xE3,
                   CHR 0x80, CHR 0x91]"

definition LABEL_SOURCES :: string where
  "LABEL_SOURCES = [CHR 0xE3, CHR 0x80, CHR 0x90, CHR 0xE5, CHR 0xBC, CHR 0x95, CHR 0xE7, CHR 0x94,
                    CHR 0xA8, CHR 0xE6, CHR 0x9D, CHR 0xA5, CHR 0xE6, CHR 0xBA, CHR 0x90, CHR 0xE3,
                    CHR 0x80, CHR 0x91]"

definition NL :: string where
  "NL = [CHR 0x0A]"

section \<open>Rendering one fragment\<close>

text \<open>\<^verbatim>\<open>_format_code_block(code_data)\<close>\<close>

definition format_code_block :: "world \<Rightarrow> json \<Rightarrow> error + string" where
  "format_code_block w code_data =
     bindE (py_get code_data ''language'' (JStr '''')) (\<lambda>l.
     bindE (py_lower w l) (\<lambda>language.
     bindE (py_get code_data ''code'' (JStr '''')) (\<lambda>c.
     bindE (py_strip w c) (\<lambda>code.
     Inr (NL @ NL @ ''---'' @ NL @ NL @ LABEL_CODE @ NL @ ''```'' @ language @ NL
          @ code @ NL @ ''```'' @ NL)))))"

text \<open>\<^verbatim>\<open>_format_execution_result(result_data)\<close>\<close>

definition format_execution_result :: "world \<Rightarrow> json \<Rightarrow> error + string" where
  "format_execution_result w result_data =
     bindE (py_get result_data ''outcome'' (JStr '''')) (\<lambda>outcome.
     bindE (py_get result_data ''output'' (JStr '''')) (\<lambda>out.
     bindE (py_strip w out) (\<lambda>output.
     Inr (NL @ LABEL_RESULT @ NL @ ''> outcome: '' @ py_format w outcome @ NL @ NL
          @ LABEL_OUTPUT @ NL @ ''```plaintext'' @ NL @ output @ NL @ ''```'' @ NL @ NL
          @ ''---'' @ NL @ NL))))"

text \<open>
  \<^verbatim>\<open>_extract_image_data(part)\<close>; \<open>k\<close> counts the file names drawn so far in this call.
  Nothing catches the exception of \<^verbatim>\<open>b64decode\<close>, of the upload, or of calling
  \<^verbatim>\<open>upload\<close> on \<^verbatim>\<open>None\<close> when the provider is none of the three names.
\<close>

definition select_uploader :: "world \<Rightarrow> uploader option" where
  "select_uploader w =
     (if UPLOAD_PROVIDER w = ''smms'' then Some (create_uploader w (UPLOAD_PROVIDER w))
      else if UPLOAD_PROVIDER w = ''picgo'' then Some (create_uploader w (UPLOAD_PROVIDER w))
      else if UPLOAD_PROVIDER w = ''cloudflare_imgbed''
        then Some (create_uploader w (UPLOAD_PROVIDER w))
      else None)"

definition py_b64decode :: "world \<Rightarrow> json \<Rightarrow> error + string" where
  "py_b64decode w v = (case v of JStr s \<Rightarrow> b64decode w s | _ \<Rightarrow> Inl TypeError)"

text \<open>The file name of line 243, from the \<open>k\<close>-th draw.\<close>

definition upload_filename :: "chance \<Rightarrow> nat \<Rightarrow> string" where
  "upload_filename ch k = strftime_date ch @ ''/'' @ take 8 (uuid4_hex ch k) @ ''.png''"

definition extract_image_data :: "world \<Rightarrow> chance \<Rightarrow> nat \<Rightarrow> json \<Rightarrow> error + string" where
  "extract_image_data w ch k part =
     (let image_uploader = select_uploader w;
          filename = upload_filename ch k
      in bindE (py_item part ''inlineData'') (\<lambda>inline_data.
         bindE (py_item inline_data ''data'') (\<lambda>base64_data.
         bindE (py_b64decode w base64_data) (\<lambda>bytes_data.
         case image_uploader of
           None \<Rightarrow> Inl AttributeError
         | Some upload \<Rightarrow>
             bindE (upload bytes_data filename) (\<lambda>upload_response.
             if success upload_response
             then Inr (NL @ NL @ ''![image]('' @ url upload_response @ '')'' @ NL @ NL)
             else Inr '''')))))"

text \<open>
  The classification chain of the streaming branch (lines 178 to 191), on the one
  fragment \<^verbatim>\<open>current_part\<close>.
\<close>

definition stream_part_text :: "world \<Rightarrow> chance \<Rightarrow> json \<Rightarrow> error + json" where
  "stream_part_text w ch current_part =
     bindE (py_in ''text'' current_part) (\<lambda>b1.
     if b1 then py_get current_part ''text'' JNull else
     bindE (py_in ''executableCode'' current_part) (\<lambda>b2.
     if b2 then bindE (py_item current_part ''executableCode'') (\<lambda>c.
                bindE (format_code_block w c) (\<lambda>s. Inr (JStr s))) else
     bindE (py_in ''codeExecution'' current_part) (\<lambda>b3.
     if b3 then bindE (py_item current_part ''codeExecution'') (\<lambda>c.
                bindE (format_code_block w c) (\<lambda>s. Inr (JStr s))) else
     bindE (py_in ''executableCodeResult'' current_part) (\<lambda>b4.
     if b4 then bindE (py_item current_part ''executableCodeResult'') (\<lambda>r.
                bindE (format_execution_result w r) (\<lambda>s. Inr (JStr s))) else
     bindE (py_in ''codeExecutionResult'' current_part) (\<lambda>b5.
     if b5 then bindE (py_item current_part ''codeExecutionResult'') (\<lambda>r.
                bindE (format_execution_result w r) (\<lambda>s. Inr (JStr s))) else
     bindE (py_in ''inlineData'' current_part) (\<lambda>b6.
     if b6 then bindE (extract_image_data w ch 0 current_part) (\<lambda>s. Inr (JStr s))
     else Inr (JStr '''')))))))"

text \<open>
  The body of the loop of the non-streaming branch (lines 206 to 217): what one fragment
  appends to \<open>text\<close>, and the number of file names drawn after it. \<^verbatim>\<open>text += v\<close> raises
  for a \<open>v\<close> that is no string.
\<close>

definition normal_part_text :: "world \<Rightarrow> chance \<Rightarrow> nat \<Rightarrow> json \<Rightarrow> error + (string \<times> nat)" where
  "normal_part_text w ch k part =
     bindE (py_in ''text'' part) (\<lambda>b1.
     if b1 then bindE (py_get part ''text'' (JStr '''')) (\<lambda>v.
                bindE (str_iadd '''' v) (\<lambda>s. Inr (s, k))) else
     bindE (py_in ''inlineData'' part) (\<lambda>b2.
     if b2 then bindE (extract_image_data w ch k part) (\<lambda>s. Inr (s, Suc k)) else
     bindE (py_in ''executableCode'' part) (\<lambda>b3.
     if b3 then bindE (py_item part ''executableCode'') (\<lambda>c.
                bindE (format_code_block w c) (\<lambda>s. Inr (s, k))) else
     bindE (py_in ''codeExecution'' part) (\<lambda>b4.
     if b4 then bindE (py_item part ''codeExecution'') (\<lambda>c.
                bindE (format_code_block w c) (\<lambda>s. Inr (s, k))) else
     bindE (py_in ''executableCodeResult'' part) (\<lambda>b5.
     if b5 then bindE (py_item part ''executableCodeResult'') (\<lambda>r.
                bindE (format_execution_result w r) (\<lambda>s. Inr (s, k))) else
     bindE (py_in ''codeExecutionResult'' part) (\<lambda>b6.
     if b6 then bindE (py_item part ''codeExecutionResult'') (\<lambda>r.
                bindE (format_execution_result w r) (\<lambda>s. Inr (s, k)))
     else Inr ('''', k)))))))"

text \<open>The loop \<^verbatim>\<open>for part in parts[start_index:]\<close> (line 205).\<close>

fun normal_parts_text :: "world \<Rightarrow> chance \<Rightarrow> nat \<Rightarrow> string \<Rightarrow> json list \<Rightarrow> error + string" where
  "normal_parts_text w ch k text [] = Inr text"
| "normal_parts_text w ch k text (part # rest) =
     (case normal_part_text w ch k part of
        Inl e \<Rightarrow> Inl e
      | Inr (s, k') \<Rightarrow> normal_parts_text w ch k' (text @ s) rest)"

section \<open>Citations\<close>

text \<open>\<^verbatim>\<open>_create_search_link(grounding_chunk)\<close>\<close>

definition create_search_link :: "world \<Rightarrow> json \<Rightarrow> error + string" where
  "create_search_link w grounding_chunk =
     bindE (py_item grounding_chunk ''title'') (\<lambda>title.
     bindE (py_item grounding_chunk ''uri'') (\<lambda>uri.
     Inr (NL @ ''- ['' @ py_format w title @ '']('' @ py_format w uri @ '')'')))"

text \<open>The loop over the grounding chunks (lines 340 to 342).\<close>

fun search_links :: "world \<Rightarrow> json \<Rightarrow> json list \<Rightarrow> error + json" where
  "search_links w text [] = Inr text"
| "search_links w text (grounding_chunk # rest) =
     (case py_in ''web'' grounding_chunk of
        Inl e \<Rightarrow> Inl e
      | Inr False \<Rightarrow> search_links w text rest
      | Inr True \<Rightarrow>
          (case bindE (py_item grounding_chunk ''web'') (\<lambda>web.
                bindE (create_search_link w web) (\<lambda>link.
                py_iadd_str text link)) of
             Inl e \<Rightarrow> Inl e
           | Inr text' \<Rightarrow> search_links w text' rest))"

text \<open>
  The condition of \<^verbatim>\<open>_add_search_link_text\<close> (lines 331 to 336), with the short-circuit
  evaluation of \<^verbatim>\<open>and\<close>.
\<close>

definition search_link_test :: "world \<Rightarrow> string \<Rightarrow> json \<Rightarrow> error + bool" where
  "search_link_test w model candidate =
     (if \<not> SHOW_SEARCH_LINK w then Inr False
      else if \<not> endswith model ''-search'' then Inr False
      else bindE (py_in ''groundingMetadata'' candidate) (\<lambda>b1.
           if \<not> b1 then Inr False
           else bindE (py_item candidate ''groundingMetadata'') (\<lambda>gm.
                py_in ''groundingChunks'' gm)))"

text \<open>\<^verbatim>\<open>_add_search_link_text(model, candidate, text)\<close>\<close>

definition add_search_link_text :: "world \<Rightarrow> string \<Rightarrow> json \<Rightarrow> json \<Rightarrow> error + json" where
  "add_search_link_text w model candidate text =
     bindE (search_link_test w model candidate) (\<lambda>applies.
     if applies then
       bindE (py_item candidate ''groundingMetadata'') (\<lambda>gm.
       bindE (py_item gm ''groundingChunks'') (\<lambda>grounding_chunks.
       bindE (py_iadd_str text (NL @ NL @ ''---'' @ NL @ NL)) (\<lambda>text1.
       bindE (py_iadd_str text1 (''**'' @ LABEL_SOURCES @ ''**'' @ NL @ NL)) (\<lambda>text2.
       bindE (py_iter grounding_chunks) (\<lambda>chunks.
       search_links w text2 chunks)))))
     else Inr text)"

section \<open>Tool calls\<close>

fun is_list :: "json \<Rightarrow> bool" where
  "is_list (JArr xs) = True"
| "is_list _ = False"

fun is_dict :: "json \<Rightarrow> bool" where
  "is_dict (JObj d) = True"
| "is_dict _ = False"

fun the_dict :: "json \<Rightarrow> dict" where
  "the_dict (JObj d) = d"
| "the_dict _ = []"

fun the_list :: "json \<Rightarrow> json list" where
  "the_list (JArr xs) = xs"
| "the_list _ = []"

text \<open>\<^verbatim>\<open>x or y\<close>\<close>

definition py_or :: "json \<Rightarrow> json \<Rightarrow> json" where
  "py_or x y = (if truthy x then x else y)"

text \<open>
  The target-format dictionary appended for the function call \<open>item\<close> found at position
  \<open>i\<close>, with the \<open>k\<close>-th identifier drawn (lines 277 to 288).
\<close>

definition target_tool_call :: "world \<Rightarrow> chance \<Rightarrow> nat \<Rightarrow> nat \<Rightarrow> dict \<Rightarrow> json" where
  "target_tool_call w ch i k item =
     (let ident = ''call_'' @ random_sample ch k;
          name = dict_get item ''name'' (JStr '''');
          arguments = json_dumps w (py_or (dict_get item ''args'' JNull) (JObj []))
      in JObj [(''index'', JNum (int i)),
               (''id'', JStr ident),
               (''type'', JStr ''function''),
               (''function'', JObj [(''name'', name), (''arguments'', JStr arguments)])])"

text \<open>
  The loop \<^verbatim>\<open>for i in range(len(parts))\<close> (lines 265 to 288); \<open>i\<close> is the position of the
  head of the list, \<open>k\<close> the number of identifiers drawn so far.
\<close>

fun tool_calls_loop :: "world \<Rightarrow> chance \<Rightarrow> bool \<Rightarrow> nat \<Rightarrow> nat \<Rightarrow> json list \<Rightarrow> json list" where
  "tool_calls_loop w ch gemini_format i k [] = []"
| "tool_calls_loop w ch gemini_format i k (part # rest) =
     (if \<not> truthy part \<or> \<not> is_dict part then tool_calls_loop w ch gemini_format (Suc i) k rest
      else let item = dict_get (the_dict part) ''functionCall'' (JObj []) in
        if \<not> truthy item \<or> \<not> is_dict item
          then tool_calls_loop w ch gemini_format (Suc i) k rest
        else if gemini_format
          then part # tool_calls_loop w ch gemini_format (Suc i) k rest
        else target_tool_call w ch i k (the_dict item)
               # tool_calls_loop w ch gemini_format (Suc i) (Suc k) rest)"

text \<open>\<^verbatim>\<open>_extract_tool_calls(parts, gemini_format)\<close>\<close>

definition extract_tool_calls :: "world \<Rightarrow> chance \<Rightarrow> json \<Rightarrow> bool \<Rightarrow> json list" where
  "extract_tool_calls w ch parts gemini_format =
     (if \<not> truthy parts \<or> \<not> is_list parts then []
      else tool_calls_loop w ch gemini_format 0 0 (the_list parts))"

section \<open>Extraction\<close>

text \<open>
  The test \<^verbatim>\<open>parts[0].get("thought") or ("thinking" in model and len(parts) >= 2)\<close>
  (lines 173 and 199), with Python's short-circuit evaluation.
\<close>

definition thinking_test :: "json \<Rightarrow> string \<Rightarrow> error + bool" where
  "thinking_test parts model =
     bindE (py_index parts 0) (\<lambda>p0.
     bindE (py_get p0 ''thought'' JNull) (\<lambda>tagged.
     if truthy tagged then Inr True
     else if str_contains model ''thinking'' then bindE (py_len parts) (\<lambda>n. Inr (2 \<le> n))
     else Inr False))"

text \<open>
  The assignments under that test (lines 174 to 176, 200 to 202): the new \<open>thought\<close>
  (\<^verbatim>\<open>None\<close> is \<open>JNull\<close>) and \<open>start_index\<close>.
\<close>

definition thinking_assign :: "world \<Rightarrow> json \<Rightarrow> error + (json \<times> nat)" where
  "thinking_assign w parts =
     (if SHOW_THINKING_PROCESS w
      then bindE (py_index parts 0) (\<lambda>p0.
           bindE (py_get p0 ''text'' (JStr '''')) (\<lambda>thought. Inr (thought, 1)))
      else Inr (JNull, 1))"

text \<open>
  \<^verbatim>\<open>_extract_result(response, model, stream, gemini_format)\<close>: the triple
  \<open>(text, tool_calls, thought)\<close>, or the exception that escapes.
\<close>

definition extract_result ::
  "world \<Rightarrow> chance \<Rightarrow> dict \<Rightarrow> string \<Rightarrow> bool \<Rightarrow> bool \<Rightarrow> error + (json \<times> json list \<times> json)" where
  "extract_result w ch response model stream gemini_format =
     (if stream then
        (if truthy (dict_get response ''candidates'' JNull) then
           bindE (py_item (JObj response) ''candidates'') (\<lambda>candidates.
           bindE (py_index candidates 0) (\<lambda>candidate.
           bindE (py_get candidate ''content'' (JObj [])) (\<lambda>content.
           bindE (py_get content ''parts'' (JArr [])) (\<lambda>parts.
           if \<not> truthy parts then Inr (JStr '''', [], JNull) else
           bindE (thinking_test parts model) (\<lambda>fires.
           bindE (if fires then thinking_assign w parts else Inr (JNull, 0))
             (\<lambda>(thought, start_index).
           bindE (py_len parts) (\<lambda>n.
           bindE (if n > start_index then py_index parts start_index else Inr (JObj []))
             (\<lambda>current_part.
           bindE (stream_part_text w ch current_part) (\<lambda>text.
           bindE (add_search_link_text w model candidate text) (\<lambda>text'.
           bindE (py_slice_from parts start_index) (\<lambda>rest.
           Inr (text', extract_tool_calls w ch rest gemini_format, thought))))))))))))
         else Inr (JStr '''', [], JNull))
      else
        (if truthy (dict_get response ''candidates'' JNull) then
           bindE (py_item (JObj response) ''candidates'') (\<lambda>candidates.
           bindE (py_index candidates 0) (\<lambda>candidate.
           bindE (py_get candidate ''content'' (JObj [])) (\<lambda>content.
           bindE (py_get content ''parts'' (JArr [])) (\<lambda>parts.
           bindE (if truthy parts then thinking_test parts model else Inr False) (\<lambda>fires.
           bindE (if fires then thinking_assign w parts else Inr (JNull, 0))
             (\<lambda>(thought, start_index).
           bindE (py_slice_from parts start_index) (\<lambda>rest.
           bindE (py_iter rest) (\<lambda>rest_parts.
           bindE (normal_parts_text w ch 0 '''' rest_parts) (\<lambda>text.
           bindE (add_search_link_text w model candidate (JStr text)) (\<lambda>text'.
           bindE (py_slice_from parts start_index) (\<lambda>rest'.
           Inr (text', extract_tool_calls w ch rest' gemini_format, thought))))))))))))
         else Inr (JStr NO_RESPONSE, [], JNull)))"

section \<open>The target-format builders\<close>

text \<open>
  The usage dictionary built from \<^verbatim>\<open>usage_metadata\<close> (lines 59 and 85):
  \<^verbatim>\<open>usage_metadata.get\<close> raises when \<^verbatim>\<open>usage_metadata\<close> is \<^verbatim>\<open>None\<close>.
\<close>

definition usage_block :: "json \<Rightarrow> error + json" where
  "usage_block usage_metadata =
     bindE (py_get usage_metadata ''promptTokenCount'' (JNum 0)) (\<lambda>p.
     bindE (py_get usage_metadata ''candidatesTokenCount'' (JNum 0)) (\<lambda>c.
     bindE (py_get usage_metadata ''totalTokenCount'' (JNum 0)) (\<lambda>t.
     Inr (JObj [(''prompt_tokens'', p), (''completion_tokens'', c), (''total_tokens'', t)]))))"

text \<open>The \<^verbatim>\<open>delta\<close> of a streaming chunk (lines 45 to 50).\<close>

definition stream_delta :: "json \<Rightarrow> json list \<Rightarrow> dict" where
  "stream_delta text tool_calls =
     (if \<not> truthy text \<and> tool_calls = [] then []
      else let delta = [(''content'', text), (''role'', JStr ''assistant'')]
           in if tool_calls \<noteq> [] then AList.update ''tool_calls'' (JArr tool_calls) delta
              else delta)"

text \<open>\<^verbatim>\<open>_handle_openai_stream_response(response, model, finish_reason, usage_metadata)\<close>\<close>

definition handle_openai_stream_response ::
  "world \<Rightarrow> chance \<Rightarrow> dict \<Rightarrow> string \<Rightarrow> json \<Rightarrow> json \<Rightarrow> error + dict" where
  "handle_openai_stream_response w ch response model finish_reason usage_metadata =
     bindE (extract_result w ch response model True False) (\<lambda>(text, tool_calls, _).
     let delta = stream_delta text tool_calls;
         template_chunk =
           [(''id'', JStr (''chatcmpl-'' @ uuid4_str ch)),
            (''object'', JStr ''chat.completion.chunk''),
            (''created'', JNum (time_now ch)),
            (''model'', JStr model),
            (''choices'', JArr [JObj [(''index'', JNum 0),
                                      (''delta'', JObj delta),
                                      (''finish_reason'', finish_reason)]])]
     in if truthy usage_metadata
        then bindE (usage_block usage_metadata) (\<lambda>usage.
             Inr (AList.update ''usage'' usage template_chunk))
        else Inr template_chunk)"

text \<open>\<^verbatim>\<open>_handle_openai_normal_response(response, model, finish_reason, usage_metadata)\<close>\<close>

definition handle_openai_normal_response ::
  "world \<Rightarrow> chance \<Rightarrow> dict \<Rightarrow> string \<Rightarrow> json \<Rightarrow> json \<Rightarrow> error + dict" where
  "handle_openai_normal_response w ch response model finish_reason usage_metadata =
     bindE (extract_result w ch response model False False) (\<lambda>(text, tool_calls, thought).
     bindE (usage_block usage_metadata) (\<lambda>usage.
     let response_data =
           [(''id'', JStr (''chatcmpl-'' @ uuid4_str ch)),
            (''object'', JStr ''chat.completion''),
            (''created'', JNum (time_now ch)),
            (''model'', JStr model),
            (''choices'', JArr [JObj [(''index'', JNum 0),
                                      (''message'', JObj [(''role'', JStr ''assistant''),
                                                          (''content'', text),
                                                          (''tool_calls'', JArr tool_calls)]),
                                      (''finish_reason'', finish_reason)]]),
            (''usage'', usage)]
     in if truthy thought then Inr (AList.update ''thought'' thought response_data)
        else Inr response_data))"

section \<open>The native-format builders\<close>

text \<open>
  The assignment \<^verbatim>\<open>response["candidates"][0]["content"] = content\<close> (lines 303 and 319).
  It changes the caller's dictionary in place; the model returns the changed response.
\<close>

definition set_candidate_content :: "dict \<Rightarrow> json \<Rightarrow> error + dict" where
  "set_candidate_content response content =
     bindE (py_item (JObj response) ''candidates'') (\<lambda>candidates.
     bindE (py_index candidates 0) (\<lambda>candidate.
     case candidate of
       JObj d \<Rightarrow>
         Inr (AList.update ''candidates''
                (JArr ((the_list candidates)[0 := JObj (AList.update ''content'' content d)]))
                response)
     | _ \<Rightarrow> Inl TypeError))"


text \<open>\<^verbatim>\<open>_handle_gemini_normal_response(response, model, stream)\<close>\<close>

definition handle_gemini_normal_response ::
  "world \<Rightarrow> chance \<Rightarrow> dict \<Rightarrow> string \<Rightarrow> bool \<Rightarrow> error + dict" where
  "handle_gemini_normal_response w ch response model stream =
     bindE (extract_result w ch response model stream True) (\<lambda>(text, tool_calls, thought).
     let content =
           (if tool_calls \<noteq> []
            then JObj [(''parts'', JArr tool_calls), (''role'', JStr ''model'')]
            else if thought \<noteq> JNull
            then JObj [(''parts'', JArr [JObj [(''text'', thought), (''thought'', JBool True)],
                                         JObj [(''text'', text)]]),
                       (''role'', JStr ''model'')]
            else JObj [(''parts'', JArr [JObj [(''text'', text)]]), (''role'', JStr ''model'')])
     in set_candidate_content response content)"

section \<open>The handler classes\<close>







section \<open>Observing the outputs\<close>

text \<open>\<^verbatim>\<open>out["choices"][0][k]\<close> of a target-format output, \<open>JNull\<close> where the path is absent.\<close>

definition choice0 :: "dict \<Rightarrow> string \<Rightarrow> json" where
  "choice0 out k =
     (case the_list (dict_get out ''choices'' JNull) of
        [] \<Rightarrow> JNull
      | c # _ \<Rightarrow> dict_get (the_dict c) k JNull)"

text \<open>\<^verbatim>\<open>out["candidates"][0]["content"]["parts"]\<close> of a native-format output.\<close>

definition content_parts :: "dict \<Rightarrow> json" where
  "content_parts out =
     (case the_list (dict_get out ''candidates'' JNull) of
        [] \<Rightarrow> JNull
      | c # _ \<Rightarrow> dict_get (the_dict (dict_get (the_dict c) ''content'' JNull)) ''parts'' JNull)"

text \<open>The \<^verbatim>\<open>index\<close> of a target-format tool call.\<close>

definition tool_call_index :: "json \<Rightarrow> json" where
  "tool_call_index tc = dict_get (the_dict tc) ''index'' JNull"



section \<open>The specification's notions\<close>

text \<open>
  Thinking detection in the spec's words: the first element of a fragment sequence is a
  thought fragment when it is explicitly tagged as thought, or the model identifier
  contains the thinking-mode marker and the sequence has at least two fragments.
\<close>

definition spec_thought_classified :: "string \<Rightarrow> json list \<Rightarrow> bool" where
  "spec_thought_classified model parts =
     (case parts of
        [] \<Rightarrow> False
      | p0 # _ \<Rightarrow> truthy (dict_get (the_dict p0) ''thought'' JNull)
                  \<or> (str_contains model ''thinking'' \<and> 2 \<le> length parts))"

text \<open>
  What the extractor does with the fragments \<open>rest\<close> that remain after the skip, given
  the \<open>thought\<close> already set: the text of the fragments, the citations, the tool calls.
\<close>

definition extract_tail ::
  "world \<Rightarrow> chance \<Rightarrow> string \<Rightarrow> bool \<Rightarrow> bool \<Rightarrow> json \<Rightarrow> json list \<Rightarrow> json
     \<Rightarrow> error + (json \<times> json list \<times> json)" where
  "extract_tail w ch model stream gemini_format candidate rest thought =
     (if stream then
        bindE (stream_part_text w ch (case rest of [] \<Rightarrow> JObj [] | p # _ \<Rightarrow> p)) (\<lambda>text.
        bindE (add_search_link_text w model candidate text) (\<lambda>text'.
        Inr (text', extract_tool_calls w ch (JArr rest) gemini_format, thought)))
      else
        bindE (normal_parts_text w ch 0 '''' rest) (\<lambda>text.
        bindE (add_search_link_text w model candidate (JStr text)) (\<lambda>text'.
        Inr (text', extract_tool_calls w ch (JArr rest) gemini_format, thought))))"



text \<open>
  Classification by a priority list: the first key of the list that the fragment
  carries decides, and the fragment is rendered by that key.
\<close>

definition first_key :: "string list \<Rightarrow> dict \<Rightarrow> string option" where
  "first_key order d = find (\<lambda>key. map_of d key \<noteq> None) order"

definition render_key :: "world \<Rightarrow> chance \<Rightarrow> nat \<Rightarrow> string \<Rightarrow> json \<Rightarrow> error + json" where
  "render_key w ch k key part =
     (if key = ''text'' then py_item part ''text''
      else if key = ''inlineData''
        then bindE (extract_image_data w ch k part) (\<lambda>s. Inr (JStr s))
      else if key = ''executableCode'' \<or> key = ''codeExecution''
        then bindE (py_item part key) (\<lambda>c. bindE (format_code_block w c) (\<lambda>s. Inr (JStr s)))
      else if key = ''executableCodeResult'' \<or> key = ''codeExecutionResult''
        then bindE (py_item part key) (\<lambda>r.
             bindE (format_execution_result w r) (\<lambda>s. Inr (JStr s)))
      else Inr (JStr ''''))"

definition normal_order :: "string list" where
  "normal_order = [''text'', ''inlineData'', ''executableCode'', ''codeExecution'',
                   ''executableCodeResult'', ''codeExecutionResult'']"

definition stream_order :: "string list" where
  "stream_order = [''text'', ''executableCode'', ''codeExecution'',
                   ''executableCodeResult'', ''codeExecutionResult'', ''inlineData'']"

section \<open>Sample worlds and responses\<close>

text \<open>
  An upload backend that accepts every file and one that reports failure; a stand-in for
  \<^verbatim>\<open>b64decode\<close> that raises on a payload of length 1 modulo 4 (no base64 text has
  that length) and hands every other payload on undecoded; stand-ins for \<^verbatim>\<open>json.dumps\<close>
  and \<^verbatim>\<open>str\<close> that are right on \<^verbatim>\<open>{}\<close> and on \<^verbatim>\<open>None\<close>, the only values they meet
  in the samples.
\<close>

definition upload_ok :: uploader where
  "upload_ok bytes_data filename = Inr \<lparr>success = True, url = ''http://img/'' @ filename\<rparr>"

definition upload_fail :: uploader where
  "upload_fail bytes_data filename = Inr \<lparr>success = False, url = ''''\<rparr>"

definition sample_b64decode :: "string \<Rightarrow> error + string" where
  "sample_b64decode s = (if length s mod 4 = 1 then Inl BinasciiError else Inr s)"

definition sample_dumps :: "json \<Rightarrow> string" where
  "sample_dumps v = (if v = JObj [] then ''{}'' else ''null'')"

definition sample_repr :: "json \<Rightarrow> string" where
  "sample_repr v = ''None''"

text \<open>
  Stand-ins for \<^verbatim>\<open>str.lower\<close> and \<^verbatim>\<open>str.strip\<close> that are Python's on ASCII text (the
  letters \<open>A\<close> to \<open>Z\<close>; the white space characters 9 to 13 and 28 to 32), the only text
  they meet in the samples.
\<close>

definition ascii_lower_char :: "char \<Rightarrow> char" where
  "ascii_lower_char c =
     (let n = of_char c :: nat in if 65 \<le> n \<and> n \<le> 90 then char_of (n + 32) else c)"

definition ascii_space :: "char \<Rightarrow> bool" where
  "ascii_space c = (let n = of_char c :: nat in (9 \<le> n \<and> n \<le> 13) \<or> (28 \<le> n \<and> n \<le> 32))"

definition ascii_lower :: "string \<Rightarrow> string" where
  "ascii_lower s = map ascii_lower_char s"

definition ascii_strip :: "string \<Rightarrow> string" where
  "ascii_strip s = rev (dropWhile ascii_space (rev (dropWhile ascii_space s)))"

definition w0 :: world where
  "w0 = \<lparr>SHOW_THINKING_PROCESS = True, SHOW_SEARCH_LINK = True, UPLOAD_PROVIDER = ''smms'',
          create_uploader = (\<lambda>provider. upload_ok), b64decode = sample_b64decode,
          json_dumps = sample_dumps, py_repr = sample_repr,
          str_lower = ascii_lower, str_strip = ascii_strip\<rparr>"

definition w_upload_fails :: world where
  "w_upload_fails = w0\<lparr>create_uploader := (\<lambda>provider. upload_fail)\<rparr>"

definition ch0 :: chance where
  "ch0 = \<lparr>random_sample = (\<lambda>k. ''abcdefghijklmnopqrstuvwxyz012345''),
           uuid4_hex = (\<lambda>k. ''0123456789abcdef0123456789abcdef''),
           uuid4_str = ''00000000-0000-4000-8000-000000000000'',
           time_now = 1700000000,
           strftime_date = ''2024/01/01''\<rparr>"

definition ch1 :: chance where
  "ch1 = ch0\<lparr>random_sample := (\<lambda>k. ''zyxwvutsrqponmlkjihgfedcba987654''),
             uuid4_str := ''11111111-1111-4111-8111-111111111111'',
             time_now := 1700000001\<rparr>"

definition mk_content :: "json list \<Rightarrow> dict" where
  "mk_content parts = [(''parts'', JArr parts), (''role'', JStr ''model'')]"

definition mk_candidate :: "json list \<Rightarrow> dict" where
  "mk_candidate parts = [(''content'', JObj (mk_content parts)), (''finishReason'', JStr ''STOP'')]"

definition mk_response :: "json list \<Rightarrow> dict" where
  "mk_response parts = [(''candidates'', JArr [JObj (mk_candidate parts)])]"

definition r_hello :: dict where
  "r_hello = mk_response [JObj [(''text'', JStr ''Hello'')]]"

definition r_blocked :: dict where
  "r_blocked = [(''promptFeedback'', JObj [(''blockReason'', JStr ''SAFETY'')])]"


definition r_thinking :: dict where
  "r_thinking = mk_response [JObj [(''text'', JStr ''reasoning...'')],
                             JObj [(''text'', JStr ''answer'')]]"

definition r_tool_call :: dict where
  "r_tool_call = mk_response [JObj [(''text'', JStr ''Looking up.'')],
                              JObj [(''functionCall'', JObj [(''name'', JStr ''lookup'')])]]"

definition r_image :: dict where
  "r_image = mk_response [JObj [(''inlineData'', JObj [(''mimeType'', JStr ''image/png''),
                                                        (''data'', JStr ''QUJD'')])],
                          JObj [(''text'', JStr ''after'')]]"

definition r_bad_image :: dict where
  "r_bad_image = mk_response [JObj [(''inlineData'', JObj [(''mimeType'', JStr ''image/png''),
                                                            (''data'', JStr ''A'')])],
                              JObj [(''text'', JStr ''after'')]]"

definition p_two_keys :: dict where
  "p_two_keys = [(''inlineData'', JObj [(''mimeType'', JStr ''image/png''),
                                       (''data'', JStr ''QUJD'')]),
                 (''executableCode'', JObj [(''language'', JStr ''PYTHON''),
                                            (''code'', JStr ''x = 1'')])]"

definition r_two_keys :: dict where
  "r_two_keys = mk_response [JObj p_two_keys]"

definition CITATION_HEADER :: string where
  "CITATION_HEADER = NL @ NL @ ''---'' @ NL @ NL @ ''**'' @ LABEL_SOURCES @ ''**'' @ NL @ NL"

definition grounded :: "json \<Rightarrow> dict" where
  "grounded content =
     [(''candidates'',
       JArr [JObj [(''content'', content),
                   (''groundingMetadata'', JObj [(''groundingChunks'', JArr [])])]])]"

definition r_grounded :: dict where
  "r_grounded = grounded (JObj [(''parts'', JArr [JObj [(''text'', JStr ''hi'')]])])"

definition r_grounded_out :: dict where
  "r_grounded_out =
     grounded (JObj [(''parts'', JArr [JObj [(''text'', JStr (''hi'' @ CITATION_HEADER))]]),
                     (''role'', JStr ''model'')])"

definition p_call :: json where
  "p_call = JObj [(''functionCall'', JObj [(''name'', JStr ''lookup'')])]"

definition r_thought_call :: dict where
  "r_thought_call = mk_response [JObj [(''thought'', JBool True)], p_call]"

definition r_thought_only :: dict where
  "r_thought_only = mk_response [JObj [(''thought'', JBool True)],
                                 JObj [(''text'', JStr ''answer'')]]"

text \<open>The outputs of the target-format builders on the samples.\<close>

definition sample_chunk :: "dict \<Rightarrow> dict" where
  "sample_chunk delta =
     [(''id'', JStr ''chatcmpl-00000000-0000-4000-8000-000000000000''),
      (''object'', JStr ''chat.completion.chunk''),
      (''created'', JNum 1700000000),
      (''model'', JStr ''gemini-pro''),
      (''choices'', JArr [JObj [(''index'', JNum 0), (''delta'', JObj delta),
                                (''finish_reason'', JStr ''stop'')]])]"

definition sample_full :: "json \<Rightarrow> json list \<Rightarrow> dict" where
  "sample_full content tool_calls =
     [(''id'', JStr ''chatcmpl-00000000-0000-4000-8000-000000000000''),
      (''object'', JStr ''chat.completion''),
      (''created'', JNum 1700000000),
      (''model'', JStr ''gemini-pro''),
      (''choices'', JArr [JObj [(''index'', JNum 0),
                                (''message'', JObj [(''role'', JStr ''assistant''),
                                                    (''content'', content),
                                                    (''tool_calls'', JArr tool_calls)]),
                                (''finish_reason'', JStr ''stop'')]]),
      (''usage'', JObj [(''prompt_tokens'', JNum 0), (''completion_tokens'', JNum 0),
                        (''total_tokens'', JNum 0)])]"

definition sample_tool_call :: "nat \<Rightarrow> json" where
  "sample_tool_call i =
     JObj [(''index'', JNum (int i)),
           (''id'', JStr ''call_abcdefghijklmnopqrstuvwxyz012345''),
           (''type'', JStr ''function''),
           (''function'', JObj [(''name'', JStr ''lookup''), (''arguments'', JStr ''{}'')])]"

definition p_image :: dict where
  "p_image = [(''inlineData'', JObj [(''mimeType'', JStr ''image/png''),
                                    (''data'', JStr ''QUJD'')])]"






section \<open>Basic facts\<close>

lemma bindE_Inl [simp]: "bindE (Inl e) f = Inl e"
  by (simp add: bindE_def)

lemma bindE_Inr [simp]: "bindE (Inr v) f = f v"
  by (simp add: bindE_def)

lemma bindE_eq_Inr: "bindE m f = Inr y \<longleftrightarrow> (\<exists>v. m = Inr v \<and> f v = Inr y)"
  by (cases m) simp_all

lemma dict_get_truthy_Some:
  "truthy (dict_get d k JNull) \<Longrightarrow> map_of d k = Some (dict_get d k JNull)"
  by (auto simp: dict_get_def split: option.splits)

lemma choice0_update: "k \<noteq> ''choices'' \<Longrightarrow> choice0 (AList.update k v out) key = choice0 out key"
  by (simp add: choice0_def dict_get_def update_conv')

lemma stream_delta_empty: "stream_delta text tcs = [] \<longleftrightarrow> (\<not> truthy text \<and> tcs = [])"
  by (simp add: stream_delta_def Let_def)

lemma stream_delta_tool_calls:
  "map_of (stream_delta text tcs) ''tool_calls'' = (if tcs = [] then None else Some (JArr tcs))"
  by (simp add: stream_delta_def Let_def)

section \<open>The shape of an extraction\<close>

lemma thinking_test_dict:
  "thinking_test (JArr (JObj p0 # ps)) model = Inr (spec_thought_classified model (JObj p0 # ps))"
  by (simp add: thinking_test_def spec_thought_classified_def)

lemma thinking_assign_dict:
  "thinking_assign w (JArr (JObj p0 # ps)) =
     Inr (if SHOW_THINKING_PROCESS w then dict_get p0 ''text'' (JStr '''') else JNull, 1)"
  by (simp add: thinking_assign_def)

lemma extract_result_shape:
  assumes c: "dict_get response ''candidates'' JNull = JArr (JObj c # cs)"
      and ct: "dict_get c ''content'' (JObj []) = JObj ct"
      and ps: "dict_get ct ''parts'' (JArr []) = JArr (JObj p0 # ps)"
  shows "extract_result w ch response model stream gemini_format =
           extract_tail w ch model stream gemini_format (JObj c)
             (if spec_thought_classified model (JObj p0 # ps) then ps else JObj p0 # ps)
             (if spec_thought_classified model (JObj p0 # ps) \<and> SHOW_THINKING_PROCESS w
              then dict_get p0 ''text'' (JStr '''') else JNull)"
proof -
  have i: "map_of response ''candidates'' = Some (JArr (JObj c # cs))"
    using dict_get_truthy_Some[of response "''candidates''"] c by simp
  show ?thesis
  proof (cases stream)
    case True
    then show ?thesis
      unfolding extract_result_def extract_tail_def
      by (cases ps) (simp_all add: c i ct ps thinking_test_dict thinking_assign_dict)
  next
    case False
    then show ?thesis
      unfolding extract_result_def extract_tail_def
      by (simp add: c i ct ps thinking_test_dict thinking_assign_dict)
  qed
qed

lemma set_candidate_content_shape:
  assumes "dict_get response ''candidates'' JNull = JArr (JObj c # cs)"
  shows "set_candidate_content response content =
           Inr (AList.update ''candidates''
                  (JArr (JObj (AList.update ''content'' content c) # cs)) response)"
proof -
  have "map_of response ''candidates'' = Some (JArr (JObj c # cs))"
    using dict_get_truthy_Some[of response "''candidates''"] assms by simp
  then show ?thesis by (simp add: set_candidate_content_def)
qed

lemma content_parts_update:
  "content_parts (AList.update ''candidates''
                    (JArr (JObj (AList.update ''content'' (JObj ((''parts'', parts) # others)) c) # cs))
                    response) = parts"
  by (simp add: content_parts_def dict_get_def update_conv')

section \<open>The builders\<close>

text \<open>
  Claim C3. The full-message target-format builder is to attach a usage block always,
  with zero counters when the provider's usage metadata is absent. On the sample
  response with \<^verbatim>\<open>usage_metadata = None\<close>, the default of \<^verbatim>\<open>handle_response\<close>, the
  builder raises \<^verbatim>\<open>AttributeError\<close> instead: line 85 calls \<^verbatim>\<open>usage_metadata.get\<close>
  without the guard \<^verbatim>\<open>if usage_metadata\<close> of the streaming builder (line 58). With an
  empty dictionary the counters are zero, and the streaming builder accepts \<^verbatim>\<open>None\<close>.
  On no response does the full builder return an output when the metadata is \<^verbatim>\<open>None\<close>.
\<close>

theorem full_builder_raises_without_usage:
  "handle_openai_normal_response w0 ch0 r_hello ''gemini-pro'' (JStr ''stop'') JNull
     = Inl AttributeError
   \<and> handle_openai_normal_response w0 ch0 r_hello ''gemini-pro'' (JStr ''stop'') (JObj [])
     = Inr (sample_full (JStr ''Hello'') [])
   \<and> handle_openai_stream_response w0 ch0 r_hello ''gemini-pro'' (JStr ''stop'') JNull
     = Inr (sample_chunk [(''content'', JStr ''Hello''), (''role'', JStr ''assistant'')])
   \<and> handle_openai_normal_response w ch response model finish_reason JNull \<noteq> Inr out"
proof -
  have a: "handle_openai_normal_response w0 ch0 r_hello ''gemini-pro'' (JStr ''stop'') JNull
             = Inl AttributeError"
    by code_simp
  have b: "handle_openai_normal_response w0 ch0 r_hello ''gemini-pro'' (JStr ''stop'') (JObj [])
             = Inr (sample_full (JStr ''Hello'') [])"
    by code_simp
  have c: "handle_openai_stream_response w0 ch0 r_hello ''gemini-pro'' (JStr ''stop'') JNull
             = Inr (sample_chunk [(''content'', JStr ''Hello''), (''role'', JStr ''assistant'')])"
    by code_simp
  have d: "handle_openai_normal_response w ch response model finish_reason JNull \<noteq> Inr out"
    by (cases "extract_result w ch response model False False")
       (auto simp: handle_openai_normal_response_def usage_block_def)
  show ?thesis by (intro conjI a b c d)
qed

lemma usage_block_dict: "is_dict usage \<Longrightarrow> \<exists>u. usage_block usage = Inr u"
  by (cases usage) (simp_all add: usage_block_def)

lemma stream_builder_total:
  assumes e: "extract_result w ch response model True False = Inr (tx, tcs, th)"
      and u: "\<not> truthy usage \<or> is_dict usage"
  shows "\<exists>chunk. handle_openai_stream_response w ch response model finish_reason usage = Inr chunk
           \<and> choice0 chunk ''delta'' = JObj (stream_delta tx tcs)"
proof (cases "truthy usage")
  case True
  with u obtain ub where "usage_block usage = Inr ub" using usage_block_dict by blast
  with True show ?thesis
    by (simp add: handle_openai_stream_response_def e Let_def choice0_update)
       (simp add: choice0_def dict_get_def)
next
  case False
  then show ?thesis
    by (simp add: handle_openai_stream_response_def e Let_def)
       (simp add: choice0_def dict_get_def)
qed

lemma full_builder_total:
  assumes e: "extract_result w ch response model False False = Inr (tx, tcs, th)"
      and u: "is_dict usage"
  shows "\<exists>full. handle_openai_normal_response w ch response model finish_reason usage = Inr full
           \<and> choice0 full ''message''
               = JObj [(''role'', JStr ''assistant''), (''content'', tx), (''tool_calls'', JArr tcs)]
           \<and> map_of full ''thought'' = (if truthy th then Some th else None)"
proof -
  obtain ub where "usage_block usage = Inr ub" using usage_block_dict[OF u] by blast
  then show ?thesis
    by (simp add: handle_openai_normal_response_def e Let_def choice0_update update_conv')
       (simp add: choice0_def dict_get_def)
qed

lemma stream_delta_shape:
  "stream_delta tx tcs =
     (if \<not> truthy tx \<and> tcs = [] then []
      else if tcs = [] then [(''content'', tx), (''role'', JStr ''assistant'')]
      else [(''content'', tx), (''role'', JStr ''assistant''), (''tool_calls'', JArr tcs)])"
  by (simp add: stream_delta_def Let_def)

text \<open>
  Claim C6. Whenever extraction returns, the builders return (the streaming builder
  with usage metadata that is absent or a dictionary, the full builder with a
  dictionary), and their outputs are these. The delta of the streaming builder is
  \<^verbatim>\<open>{}\<close> exactly when the extracted text and the tool calls are both empty; otherwise
  it holds the content and the role, and the \<^verbatim>\<open>tool_calls\<close> key exactly when the list
  of tool calls is not empty. The message of the full builder always has the
  \<^verbatim>\<open>tool_calls\<close> field, holding the list of tool calls even when it is empty.
  Conversely, a builder that returns has an extraction behind it, with the same
  relation between the two.
\<close>

theorem delta_and_message_tool_calls:
  "(extract_result w ch response model True False = Inr (tx, tcs, th) \<longrightarrow>
    \<not> truthy usage \<or> is_dict usage \<longrightarrow>
      (\<exists>chunk. handle_openai_stream_response w ch response model finish_reason usage = Inr chunk
         \<and> choice0 chunk ''delta''
             = JObj (if \<not> truthy tx \<and> tcs = [] then []
                     else if tcs = [] then [(''content'', tx), (''role'', JStr ''assistant'')]
                     else [(''content'', tx), (''role'', JStr ''assistant''),
                           (''tool_calls'', JArr tcs)])
         \<and> (choice0 chunk ''delta'' = JObj [] \<longleftrightarrow> \<not> truthy tx \<and> tcs = [])
         \<and> (tcs = [] \<longrightarrow> map_of (the_dict (choice0 chunk ''delta'')) ''tool_calls'' = None)
         \<and> (tcs \<noteq> [] \<longrightarrow>
              map_of (the_dict (choice0 chunk ''delta'')) ''tool_calls'' = Some (JArr tcs))))
   \<and>
   (extract_result w ch response model False False = Inr (tx, tcs, th) \<longrightarrow> is_dict usage \<longrightarrow>
      (\<exists>full. handle_openai_normal_response w ch response model finish_reason usage = Inr full
         \<and> choice0 full ''message''
             = JObj [(''role'', JStr ''assistant''), (''content'', tx),
                     (''tool_calls'', JArr tcs)]
         \<and> map_of (the_dict (choice0 full ''message'')) ''tool_calls'' = Some (JArr tcs)))
   \<and>
   (handle_openai_stream_response w ch response model finish_reason usage = Inr chunk \<longrightarrow>
      (\<exists>text tool_calls thought.
         extract_result w ch response model True False = Inr (text, tool_calls, thought) \<and>
         (choice0 chunk ''delta'' = JObj [] \<longleftrightarrow> \<not> truthy text \<and> tool_calls = []) \<and>
         (tool_calls = [] \<longrightarrow>
            map_of (the_dict (choice0 chunk ''delta'')) ''tool_calls'' = None) \<and>
         (tool_calls \<noteq> [] \<longrightarrow>
            map_of (the_dict (choice0 chunk ''delta'')) ''tool_calls'' = Some (JArr tool_calls))))
   \<and>
   (handle_openai_normal_response w ch response model finish_reason usage = Inr full \<longrightarrow>
      (\<exists>text tool_calls thought.
         extract_result w ch response model False False = Inr (text, tool_calls, thought) \<and>
         map_of (the_dict (choice0 full ''message'')) ''tool_calls'' = Some (JArr tool_calls)))"
proof (intro conjI impI)
  assume e: "extract_result w ch response model True False = Inr (tx, tcs, th)"
     and u: "\<not> truthy usage \<or> is_dict usage"
  from stream_builder_total[OF e u, of finish_reason]
  obtain chunk where c: "handle_openai_stream_response w ch response model finish_reason usage
                           = Inr chunk"
    and d: "choice0 chunk ''delta'' = JObj (stream_delta tx tcs)" by blast
  show "\<exists>chunk. handle_openai_stream_response w ch response model finish_reason usage = Inr chunk
         \<and> choice0 chunk ''delta''
             = JObj (if \<not> truthy tx \<and> tcs = [] then []
                     else if tcs = [] then [(''content'', tx), (''role'', JStr ''assistant'')]
                     else [(''content'', tx), (''role'', JStr ''assistant''),
                           (''tool_calls'', JArr tcs)])
         \<and> (choice0 chunk ''delta'' = JObj [] \<longleftrightarrow> \<not> truthy tx \<and> tcs = [])
         \<and> (tcs = [] \<longrightarrow> map_of (the_dict (choice0 chunk ''delta'')) ''tool_calls'' = None)
         \<and> (tcs \<noteq> [] \<longrightarrow>
              map_of (the_dict (choice0 chunk ''delta'')) ''tool_calls'' = Some (JArr tcs))"
    using c d by (auto simp: stream_delta_shape)
next
  assume e: "extract_result w ch response model False False = Inr (tx, tcs, th)"
     and u: "is_dict usage"
  from full_builder_total[OF e u, of finish_reason]
  show "\<exists>full. handle_openai_normal_response w ch response model finish_reason usage = Inr full
         \<and> choice0 full ''message''
             = JObj [(''role'', JStr ''assistant''), (''content'', tx),
                     (''tool_calls'', JArr tcs)]
         \<and> map_of (the_dict (choice0 full ''message'')) ''tool_calls'' = Some (JArr tcs)"
    by auto
next
  assume a: "handle_openai_stream_response w ch response model finish_reason usage = Inr chunk"
  then obtain tx tcs th
    where e: "extract_result w ch response model True False = Inr (tx, tcs, th)"
    by (cases "extract_result w ch response model True False")
       (auto simp: handle_openai_stream_response_def)
  have d: "choice0 chunk ''delta'' = JObj (stream_delta tx tcs)"
    using a e
    by (auto simp: handle_openai_stream_response_def Let_def bindE_eq_Inr choice0_update
             split: if_splits)
       (simp_all add: choice0_def dict_get_def)
  show "\<exists>text tool_calls thought.
          extract_result w ch response model True False = Inr (text, tool_calls, thought) \<and>
          (choice0 chunk ''delta'' = JObj [] \<longleftrightarrow> \<not> truthy text \<and> tool_calls = []) \<and>
          (tool_calls = [] \<longrightarrow>
             map_of (the_dict (choice0 chunk ''delta'')) ''tool_calls'' = None) \<and>
          (tool_calls \<noteq> [] \<longrightarrow>
             map_of (the_dict (choice0 chunk ''delta'')) ''tool_calls'' = Some (JArr tool_calls))"
    using e d by (simp add: stream_delta_empty stream_delta_tool_calls)
next
  assume a: "handle_openai_normal_response w ch response model finish_reason usage = Inr full"
  then obtain tx tcs th
    where e: "extract_result w ch response model False False = Inr (tx, tcs, th)"
    by (cases "extract_result w ch response model False False")
       (auto simp: handle_openai_normal_response_def)
  have "choice0 full ''message'' =
          JObj [(''role'', JStr ''assistant''), (''content'', tx), (''tool_calls'', JArr tcs)]"
    using a e
    by (auto simp: handle_openai_normal_response_def Let_def bindE_eq_Inr choice0_update
             split: if_splits)
       (simp_all add: choice0_def dict_get_def)
  then show "\<exists>text tool_calls thought.
          extract_result w ch response model False False = Inr (text, tool_calls, thought) \<and>
          map_of (the_dict (choice0 full ''message'')) ''tool_calls'' = Some (JArr tool_calls)"
    using e by simp
qed

theorem delta_and_message_tool_calls_witness:
  "extract_result w0 ch0 r_tool_call ''gemini-pro'' True False
     = Inr (JStr ''Looking up.'', [sample_tool_call 1], JNull)
   \<and> handle_openai_stream_response w0 ch0 r_tool_call ''gemini-pro'' (JStr ''stop'') JNull
     = Inr (sample_chunk [(''content'', JStr ''Looking up.''), (''role'', JStr ''assistant''),
                          (''tool_calls'', JArr [sample_tool_call 1])])
   \<and> extract_result w0 ch0 r_blocked ''gemini-pro'' True False = Inr (JStr '''', [], JNull)
   \<and> handle_openai_stream_response w0 ch0 r_blocked ''gemini-pro'' (JStr ''stop'') JNull
     = Inr (sample_chunk [])
   \<and> extract_result w0 ch0 r_tool_call ''gemini-pro'' False False
     = Inr (JStr ''Looking up.'', [sample_tool_call 1], JNull)
   \<and> handle_openai_normal_response w0 ch0 r_tool_call ''gemini-pro'' (JStr ''stop'') (JObj [])
     = Inr (sample_full (JStr ''Looking up.'') [sample_tool_call 1])
   \<and> (\<exists>chunk. handle_openai_stream_response w0 ch0 r_tool_call ''gemini-pro'' (JStr ''stop'') JNull
                 = Inr chunk
         \<and> choice0 chunk ''delta''
             = JObj [(''content'', JStr ''Looking up.''), (''role'', JStr ''assistant''),
                     (''tool_calls'', JArr [sample_tool_call 1])])
   \<and> (\<exists>chunk. handle_openai_stream_response w0 ch0 r_blocked ''gemini-pro'' (JStr ''stop'') JNull
                 = Inr chunk
         \<and> choice0 chunk ''delta'' = JObj [])
   \<and> (\<exists>full. handle_openai_normal_response w0 ch0 r_tool_call ''gemini-pro'' (JStr ''stop'')
                  (JObj []) = Inr full
         \<and> map_of (the_dict (choice0 full ''message'')) ''tool_calls''
             = Some (JArr [sample_tool_call 1]))"
proof -
  have e1: "extract_result w0 ch0 r_tool_call ''gemini-pro'' True False
              = Inr (JStr ''Looking up.'', [sample_tool_call 1], JNull)" by code_simp
  have b1: "handle_openai_stream_response w0 ch0 r_tool_call ''gemini-pro'' (JStr ''stop'') JNull
     = Inr (sample_chunk [(''content'', JStr ''Looking up.''), (''role'', JStr ''assistant''),
                          (''tool_calls'', JArr [sample_tool_call 1])])" by code_simp
  have e2: "extract_result w0 ch0 r_blocked ''gemini-pro'' True False = Inr (JStr '''', [], JNull)"
    by code_simp
  have b2: "handle_openai_stream_response w0 ch0 r_blocked ''gemini-pro'' (JStr ''stop'') JNull
     = Inr (sample_chunk [])" by code_simp
  have e3: "extract_result w0 ch0 r_tool_call ''gemini-pro'' False False
     = Inr (JStr ''Looking up.'', [sample_tool_call 1], JNull)" by code_simp
  have b3: "handle_openai_normal_response w0 ch0 r_tool_call ''gemini-pro'' (JStr ''stop'') (JObj [])
     = Inr (sample_full (JStr ''Looking up.'') [sample_tool_call 1])" by code_simp
  have u1: "\<not> truthy JNull \<or> is_dict JNull" by simp
  have u3: "is_dict (JObj [])" by simp
  have t1: "truthy (JStr ''Looking up.'')" by simp
  note th = delta_and_message_tool_calls[where w = w0 and ch = ch0 and model = "''gemini-pro''"
              and finish_reason = "JStr ''stop''"]
  from th[where response = r_tool_call and usage = JNull and tx = "JStr ''Looking up.''"
            and tcs = "[sample_tool_call 1]" and th = JNull, THEN conjunct1] e1 u1 t1
  have c1: "\<exists>chunk. handle_openai_stream_response w0 ch0 r_tool_call ''gemini-pro'' (JStr ''stop'') JNull
                 = Inr chunk
         \<and> choice0 chunk ''delta''
             = JObj [(''content'', JStr ''Looking up.''), (''role'', JStr ''assistant''),
                     (''tool_calls'', JArr [sample_tool_call 1])]"
    by auto
  from th[where response = r_blocked and usage = JNull and tx = "JStr ''''"
            and tcs = "[]" and th = JNull, THEN conjunct1] e2 u1
  have c2: "\<exists>chunk. handle_openai_stream_response w0 ch0 r_blocked ''gemini-pro'' (JStr ''stop'') JNull
                 = Inr chunk
         \<and> choice0 chunk ''delta'' = JObj []"
    by auto
  from th[where response = r_tool_call and usage = "JObj []" and tx = "JStr ''Looking up.''"
            and tcs = "[sample_tool_call 1]" and th = JNull, THEN conjunct2, THEN conjunct1] e3 u3
  have c3: "\<exists>full. handle_openai_normal_response w0 ch0 r_tool_call ''gemini-pro'' (JStr ''stop'')
                  (JObj []) = Inr full
         \<and> map_of (the_dict (choice0 full ''message'')) ''tool_calls''
             = Some (JArr [sample_tool_call 1])"
    by auto
  show ?thesis by (intro conjI e1 b1 e2 b2 e3 b3 c1 c2 c3)
qed

section \<open>Thinking detection and tool-call positions\<close>

lemma mk_response_candidates:
  "dict_get (mk_response parts) ''candidates'' JNull = JArr (JObj (mk_candidate parts) # [])"
  by (simp add: mk_response_def dict_get_def)

lemma mk_candidate_content:
  "dict_get (mk_candidate parts) ''content'' (JObj []) = JObj (mk_content parts)"
  by (simp add: mk_candidate_def dict_get_def)

lemma mk_content_parts:
  "dict_get (mk_content parts) ''parts'' (JArr []) = JArr parts"
  by (simp add: mk_content_def dict_get_def)

lemma extract_tail_tool_calls:
  "extract_tail w ch model stream gemini_format candidate rest thought = Inr (tx, tcs, th) \<Longrightarrow>
     tcs = extract_tool_calls w ch (JArr rest) gemini_format \<and> th = thought"
  by (auto simp: extract_tail_def bindE_eq_Inr split: if_splits)

text \<open>
  Claim C4. On a response whose first candidate has a non-empty list of fragments (the
  first one a dictionary), the first fragment is classified as thought if and only if
  it is tagged as thought, or the model identifier contains \<^verbatim>\<open>thinking\<close> and there are
  at least two fragments. If so, extraction proceeds on the fragments after the first,
  and the extracted thought is that fragment's text when \<^verbatim>\<open>SHOW_THINKING_PROCESS\<close> is
  enabled and stays unset when it is disabled; if not, extraction proceeds on all
  fragments and the thought stays unset.
\<close>

theorem thought_classification:
  assumes "dict_get response ''candidates'' JNull = JArr (JObj c # cs)"
      and "dict_get c ''content'' (JObj []) = JObj ct"
      and "dict_get ct ''parts'' (JArr []) = JArr (JObj p0 # ps)"
  shows "extract_result w ch response model stream gemini_format =
           (if truthy (dict_get p0 ''thought'' JNull)
               \<or> (str_contains model ''thinking'' \<and> 2 \<le> length (JObj p0 # ps))
            then extract_tail w ch model stream gemini_format (JObj c) ps
                   (if SHOW_THINKING_PROCESS w then dict_get p0 ''text'' (JStr '''') else JNull)
            else extract_tail w ch model stream gemini_format (JObj c) (JObj p0 # ps) JNull)
         \<and> (extract_result w ch response model stream gemini_format = Inr (tx, tcs, th) \<longrightarrow>
              th = (if (truthy (dict_get p0 ''thought'' JNull)
                        \<or> (str_contains model ''thinking'' \<and> 2 \<le> length (JObj p0 # ps)))
                       \<and> SHOW_THINKING_PROCESS w
                    then dict_get p0 ''text'' (JStr '''') else JNull))"
proof -
  have s: "extract_result w ch response model stream gemini_format =
           (if truthy (dict_get p0 ''thought'' JNull)
               \<or> (str_contains model ''thinking'' \<and> 2 \<le> length (JObj p0 # ps))
            then extract_tail w ch model stream gemini_format (JObj c) ps
                   (if SHOW_THINKING_PROCESS w then dict_get p0 ''text'' (JStr '''') else JNull)
            else extract_tail w ch model stream gemini_format (JObj c) (JObj p0 # ps) JNull)"
    using extract_result_shape[OF assms, of w ch model stream gemini_format]
    by (simp add: spec_thought_classified_def)
  show ?thesis
  proof (intro conjI impI)
    show "extract_result w ch response model stream gemini_format =
           (if truthy (dict_get p0 ''thought'' JNull)
               \<or> (str_contains model ''thinking'' \<and> 2 \<le> length (JObj p0 # ps))
            then extract_tail w ch model stream gemini_format (JObj c) ps
                   (if SHOW_THINKING_PROCESS w then dict_get p0 ''text'' (JStr '''') else JNull)
            else extract_tail w ch model stream gemini_format (JObj c) (JObj p0 # ps) JNull)"
      by (rule s)
  next
    assume "extract_result w ch response model stream gemini_format = Inr (tx, tcs, th)"
    with s show "th = (if (truthy (dict_get p0 ''thought'' JNull)
                        \<or> (str_contains model ''thinking'' \<and> 2 \<le> length (JObj p0 # ps)))
                       \<and> SHOW_THINKING_PROCESS w
                    then dict_get p0 ''text'' (JStr '''') else JNull)"
      by (auto split: if_splits dest!: extract_tail_tool_calls[OF sym])
  qed
qed

theorem thought_classification_witness:
  "dict_get r_thinking ''candidates'' JNull
     = JArr (JObj (mk_candidate [JObj [(''text'', JStr ''reasoning...'')],
                                 JObj [(''text'', JStr ''answer'')]]) # [])
   \<and> extract_result w0 ch0 r_thinking ''gemini-thinking'' False False
       = Inr (JStr ''answer'', [], JStr ''reasoning...'')
   \<and> extract_result (w0\<lparr>SHOW_THINKING_PROCESS := False\<rparr>) ch0 r_thinking
         ''gemini-thinking'' True False
       = Inr (JStr ''answer'', [], JNull)
   \<and> extract_result w0 ch0 r_thinking ''gemini-pro'' False False
       = Inr (JStr ''reasoning...answer'', [], JNull)"
proof -
  let ?ps = "[JObj [(''text'', JStr ''reasoning...'')], JObj [(''text'', JStr ''answer'')]]"
  have h1: "dict_get r_thinking ''candidates'' JNull = JArr (JObj (mk_candidate ?ps) # [])"
    unfolding r_thinking_def by (rule mk_response_candidates)
  note t = thought_classification[OF h1 mk_candidate_content mk_content_parts, THEN conjunct1]
  have a: "extract_tail w0 ch0 ''gemini-thinking'' False False (JObj (mk_candidate ?ps))
             [JObj [(''text'', JStr ''answer'')]] (JStr ''reasoning...'')
           = Inr (JStr ''answer'', [], JStr ''reasoning...'')"
    by code_simp
  have b: "extract_tail (w0\<lparr>SHOW_THINKING_PROCESS := False\<rparr>) ch0 ''gemini-thinking'' True False
             (JObj (mk_candidate ?ps)) [JObj [(''text'', JStr ''answer'')]] JNull
           = Inr (JStr ''answer'', [], JNull)"
    by code_simp
  have c: "extract_tail w0 ch0 ''gemini-pro'' False False (JObj (mk_candidate ?ps)) ?ps JNull
           = Inr (JStr ''reasoning...answer'', [], JNull)"
    by code_simp
  have m1: "str_contains ''gemini-thinking'' ''thinking''" by code_simp
  have m2: "\<not> str_contains ''gemini-pro'' ''thinking''" by code_simp
  have s: "SHOW_THINKING_PROCESS w0" by code_simp
  show ?thesis
    using h1 t[of w0 ch0 "''gemini-thinking''" False False]
          t[of "w0\<lparr>SHOW_THINKING_PROCESS := False\<rparr>" ch0 "''gemini-thinking''" True False]
          t[of w0 ch0 "''gemini-pro''" False False] a b c m1 m2 s
    by (simp add: dict_get_def)
qed





lemma tool_call_index_target [simp]:
  "tool_call_index (target_tool_call w ch i k item) = JNum (int i)"
  by (simp add: tool_call_index_def target_tool_call_def dict_get_def Let_def)





section \<open>Responses without content\<close>









section \<open>Classification order\<close>

lemma bindE_assoc: "bindE (bindE m f) g = bindE m (\<lambda>x. bindE (f x) g)"
  by (cases m) simp_all

text \<open>
  Claim C7. A fragment carrying more than one recognized key is to render by the first
  matching key of one fixed order, \<^verbatim>\<open>text\<close>, \<^verbatim>\<open>inlineData\<close>, \<^verbatim>\<open>executableCode\<close>,
  \<^verbatim>\<open>codeExecution\<close>, the execution results, the function call, identically in both
  modes. The non-streaming loop follows that order (\<open>normal_order\<close>; a function call
  renders no text). The streaming branch does not: its chain tests \<^verbatim>\<open>inlineData\<close>
  last (line 188, against line 208 of the loop), so that it decides by \<open>stream_order\<close>.
  On the sample fragment that carries \<^verbatim>\<open>inlineData\<close> and \<^verbatim>\<open>executableCode\<close>,
  non-streaming extraction renders the image, as the claim says, and streaming
  extraction renders the code block.
\<close>

theorem streaming_chain_tests_inline_data_last:
  "stream_part_text w ch (JObj d) =
     (case first_key stream_order d of
        None \<Rightarrow> Inr (JStr '''')
      | Some key \<Rightarrow> render_key w ch 0 key (JObj d))
   \<and> normal_part_text w ch k (JObj d) =
     (case first_key normal_order d of
        None \<Rightarrow> Inr ('''', k)
      | Some key \<Rightarrow>
          bindE (render_key w ch k key (JObj d)) (\<lambda>v.
          bindE (str_iadd '''' v) (\<lambda>s.
          Inr (s, if key = ''inlineData'' then Suc k else k))))
   \<and> first_key normal_order p_two_keys = Some ''inlineData''
   \<and> first_key stream_order p_two_keys = Some ''executableCode''
   \<and> extract_result w0 ch0 r_two_keys ''gemini-pro'' False False
     = Inr (JStr (NL @ NL @ ''![image](http://img/2024/01/01/01234567.png)'' @ NL @ NL),
            [], JNull)
   \<and> extract_result w0 ch0 r_two_keys ''gemini-pro'' True False
     = Inr (JStr (NL @ NL @ ''---'' @ NL @ NL @ LABEL_CODE @ NL @ ''```python'' @ NL
                  @ ''x = 1'' @ NL @ ''```'' @ NL), [], JNull)
   \<and> extract_result w0 ch0 r_two_keys ''gemini-pro'' True False
       \<noteq> extract_result w0 ch0 r_two_keys ''gemini-pro'' False False"
proof (intro conjI)
  show "stream_part_text w ch (JObj d) =
     (case first_key stream_order d of
        None \<Rightarrow> Inr (JStr '''')
      | Some key \<Rightarrow> render_key w ch 0 key (JObj d))"
    unfolding stream_part_text_def first_key_def stream_order_def render_key_def
    by (simp add: dict_get_def split: option.splits)
  show "normal_part_text w ch k (JObj d) =
     (case first_key normal_order d of
        None \<Rightarrow> Inr ('''', k)
      | Some key \<Rightarrow>
          bindE (render_key w ch k key (JObj d)) (\<lambda>v.
          bindE (str_iadd '''' v) (\<lambda>s.
          Inr (s, if key = ''inlineData'' then Suc k else k))))"
    unfolding normal_part_text_def first_key_def normal_order_def render_key_def
    by (simp add: dict_get_def bindE_assoc split: option.splits)
  show "first_key normal_order p_two_keys = Some ''inlineData''" by code_simp
  show "first_key stream_order p_two_keys = Some ''executableCode''" by code_simp
  show "extract_result w0 ch0 r_two_keys ''gemini-pro'' False False
     = Inr (JStr (NL @ NL @ ''![image](http://img/2024/01/01/01234567.png)'' @ NL @ NL),
            [], JNull)" by code_simp
  show "extract_result w0 ch0 r_two_keys ''gemini-pro'' True False
     = Inr (JStr (NL @ NL @ ''---'' @ NL @ NL @ LABEL_CODE @ NL @ ''```python'' @ NL
                  @ ''x = 1'' @ NL @ ''```'' @ NL), [], JNull)" by code_simp
  show "extract_result w0 ch0 r_two_keys ''gemini-pro'' True False
       \<noteq> extract_result w0 ch0 r_two_keys ''gemini-pro'' False False" by code_simp
qed

section \<open>Inline media\<close>

lemma image_data_outcome:
  assumes "map_of d ''inlineData'' = Some inline_data"
      and "py_item inline_data ''data'' = Inr (JStr payload)"
  shows "extract_image_data w ch k (JObj d) =
             bindE (b64decode w payload) (\<lambda>bytes_data.
             case select_uploader w of
               None \<Rightarrow> Inl AttributeError
             | Some upload \<Rightarrow>
                 bindE (upload bytes_data (upload_filename ch k)) (\<lambda>upload_response.
                 if success upload_response
                 then Inr (NL @ NL @ ''![image]('' @ url upload_response @ '')'' @ NL @ NL)
                 else Inr ''''))"
  using assms by (simp add: extract_image_data_def Let_def py_b64decode_def)

lemma stream_image_part_text:
  assumes "first_key stream_order d = Some ''inlineData''"
  shows "stream_part_text w ch (JObj d) =
           bindE (extract_image_data w ch 0 (JObj d)) (\<lambda>s. Inr (JStr s))"
  using assms
  unfolding stream_part_text_def first_key_def stream_order_def
  by (simp split: if_splits)

lemma normal_image_part_text:
  assumes "first_key normal_order d = Some ''inlineData''"
  shows "normal_part_text w ch k (JObj d) =
           bindE (extract_image_data w ch k (JObj d)) (\<lambda>s. Inr (s, Suc k))"
  using assms
  unfolding normal_part_text_def first_key_def normal_order_def
  by (simp split: if_splits)

text \<open>
  Claim C2, as amended. For a fragment that either mode classifies as inline media and
  whose payload is a string: when the payload decodes and the upload reports failure,
  the fragment renders as the empty string and extraction goes on (the non-streaming
  loop with the remaining fragments, the streaming branch with the citations and the
  tool calls); when \<^verbatim>\<open>b64decode\<close> raises, the exception leaves the fragment and ends the
  extraction, in both modes.
\<close>

theorem upload_failure_is_local:
  assumes "map_of d ''inlineData'' = Some inline_data"
      and "py_item inline_data ''data'' = Inr (JStr payload)"
  shows "(first_key normal_order d = Some ''inlineData'' \<longrightarrow>
            (b64decode w payload = Inr bytes_data \<longrightarrow> select_uploader w = Some upload \<longrightarrow>
             upload bytes_data (upload_filename ch k) = Inr upload_response \<longrightarrow>
             \<not> success upload_response \<longrightarrow>
               normal_part_text w ch k (JObj d) = Inr ('''', Suc k) \<and>
               normal_parts_text w ch k t (JObj d # rest) = normal_parts_text w ch (Suc k) t rest)
          \<and> (b64decode w payload = Inl e \<longrightarrow>
               normal_part_text w ch k (JObj d) = Inl e \<and>
               normal_parts_text w ch k t (JObj d # rest) = Inl e \<and>
               extract_tail w ch model False g cand (JObj d # rest) th = Inl e))
       \<and> (first_key stream_order d = Some ''inlineData'' \<longrightarrow>
            (b64decode w payload = Inr bytes_data \<longrightarrow> select_uploader w = Some upload \<longrightarrow>
             upload bytes_data (upload_filename ch 0) = Inr upload_response \<longrightarrow>
             \<not> success upload_response \<longrightarrow>
               stream_part_text w ch (JObj d) = Inr (JStr '''') \<and>
               extract_tail w ch model True g cand (JObj d # rest) th
                 = bindE (add_search_link_text w model cand (JStr '''')) (\<lambda>t'.
                   Inr (t', extract_tool_calls w ch (JArr (JObj d # rest)) g, th)))
          \<and> (b64decode w payload = Inl e \<longrightarrow>
               stream_part_text w ch (JObj d) = Inl e \<and>
               extract_tail w ch model True g cand (JObj d # rest) th = Inl e))"
proof (intro conjI impI)
  note i = image_data_outcome[OF assms]
  {
    assume n: "first_key normal_order d = Some ''inlineData''"
    note p = normal_image_part_text[OF n]
    {
      assume "b64decode w payload = Inr bytes_data" "select_uploader w = Some upload"
             "upload bytes_data (upload_filename ch k) = Inr upload_response"
             "\<not> success upload_response"
      then show "normal_part_text w ch k (JObj d) = Inr ('''', Suc k)"
        by (simp add: p i)
      then show "normal_parts_text w ch k t (JObj d # rest) = normal_parts_text w ch (Suc k) t rest"
        by simp
    }
    {
      assume "b64decode w payload = Inl e"
      then show a: "normal_part_text w ch k (JObj d) = Inl e"
        by (simp add: p i)
      then show "normal_parts_text w ch k t (JObj d # rest) = Inl e"
        by simp
      have "normal_part_text w ch 0 (JObj d) = Inl e"
        using \<open>b64decode w payload = Inl e\<close> by (simp add: normal_image_part_text[OF n] i)
      then show "extract_tail w ch model False g cand (JObj d # rest) th = Inl e"
        by (simp add: extract_tail_def)
    }
  }
  {
    assume s: "first_key stream_order d = Some ''inlineData''"
    note p = stream_image_part_text[OF s]
    {
      assume "b64decode w payload = Inr bytes_data" "select_uploader w = Some upload"
             "upload bytes_data (upload_filename ch 0) = Inr upload_response"
             "\<not> success upload_response"
      then show a: "stream_part_text w ch (JObj d) = Inr (JStr '''')"
        by (simp add: p i)
      then show "extract_tail w ch model True g cand (JObj d # rest) th
                 = bindE (add_search_link_text w model cand (JStr '''')) (\<lambda>t'.
                   Inr (t', extract_tool_calls w ch (JArr (JObj d # rest)) g, th))"
        by (simp add: extract_tail_def)
    }
    {
      assume "b64decode w payload = Inl e"
      then show a: "stream_part_text w ch (JObj d) = Inl e"
        by (simp add: p i)
      then show "extract_tail w ch model True g cand (JObj d # rest) th = Inl e"
        by (simp add: extract_tail_def)
    }
  }
qed

theorem upload_failure_is_local_witness:
  "first_key normal_order p_image = Some ''inlineData''
   \<and> first_key stream_order p_image = Some ''inlineData''
   \<and> normal_parts_text w_upload_fails ch0 0 '''' [JObj p_image, JObj [(''text'', JStr ''after'')]]
     = Inr ''after''
   \<and> extract_result w_upload_fails ch0 r_image ''gemini-pro'' False False
     = Inr (JStr ''after'', [], JNull)
   \<and> stream_part_text w_upload_fails ch0 (JObj p_image) = Inr (JStr '''')
   \<and> extract_result w_upload_fails ch0 r_image ''gemini-pro'' True False
     = Inr (JStr '''', [], JNull)
   \<and> first_key normal_order [(''inlineData'', JObj [(''data'', JStr ''A'')])] = Some ''inlineData''
   \<and> first_key stream_order [(''inlineData'', JObj [(''data'', JStr ''A'')])] = Some ''inlineData''
   \<and> normal_parts_text w0 ch0 0 ''''
        [JObj [(''inlineData'', JObj [(''data'', JStr ''A'')])], JObj [(''text'', JStr ''after'')]]
     = Inl BinasciiError
   \<and> stream_part_text w0 ch0 (JObj [(''inlineData'', JObj [(''data'', JStr ''A'')])])
     = Inl BinasciiError"
proof -
  let ?after = "[JObj [(''text'', JStr ''after'')]]"
  let ?bad = "[(''inlineData'', JObj [(''data'', JStr ''A'')])]"
  have a2: "map_of p_image ''inlineData''
              = Some (JObj [(''mimeType'', JStr ''image/png''), (''data'', JStr ''QUJD'')])"
    by code_simp
  have a3: "py_item (JObj [(''mimeType'', JStr ''image/png''), (''data'', JStr ''QUJD'')]) ''data''
              = Inr (JStr ''QUJD'')"
    by code_simp
  have fn: "first_key normal_order p_image = Some ''inlineData''" by code_simp
  have fs: "first_key stream_order p_image = Some ''inlineData''" by code_simp
  have d: "b64decode w_upload_fails ''QUJD'' = Inr ''QUJD''" by code_simp
  have u: "select_uploader w_upload_fails = Some upload_fail"
    by (simp add: select_uploader_def w_upload_fails_def w0_def)
  have r: "upload_fail ''QUJD'' (upload_filename ch0 0)
             = Inr \<lparr>success = False, url = ''''\<rparr>"
    by (simp add: upload_fail_def)
  have t: "normal_parts_text w_upload_fails ch0 (Suc 0) '''' ?after = Inr ''after''"
    by code_simp
  note up = upload_failure_is_local[OF a2 a3, where w = w_upload_fails and bytes_data = "''QUJD''"
            and upload = upload_fail and ch = ch0 and k = 0
            and upload_response = "\<lparr>success = False, url = ''''\<rparr>" and t = "''''"
            and rest = ?after]
  have one: "normal_parts_text w_upload_fails ch0 0 '''' (JObj p_image # ?after) = Inr ''after''"
    using up[THEN conjunct1] fn d u r t by simp
  have one_s: "stream_part_text w_upload_fails ch0 (JObj p_image) = Inr (JStr '''')"
    using up[THEN conjunct2] fs d u r by simp
  have b2: "map_of ?bad ''inlineData'' = Some (JObj [(''data'', JStr ''A'')])" by code_simp
  have b3: "py_item (JObj [(''data'', JStr ''A'')]) ''data'' = Inr (JStr ''A'')" by code_simp
  have gn: "first_key normal_order ?bad = Some ''inlineData''" by code_simp
  have gs: "first_key stream_order ?bad = Some ''inlineData''" by code_simp
  have f: "b64decode w0 ''A'' = Inl BinasciiError" by code_simp
  note dec = upload_failure_is_local[OF b2 b3, where w = w0 and e = BinasciiError and ch = ch0
            and k = 0 and t = "''''" and rest = ?after]
  have two: "normal_parts_text w0 ch0 0 '''' (JObj ?bad # ?after) = Inl BinasciiError"
    using dec[THEN conjunct1] gn f by simp
  have two_s: "stream_part_text w0 ch0 (JObj ?bad) = Inl BinasciiError"
    using dec[THEN conjunct2] gs f by simp
  have three: "extract_result w_upload_fails ch0 r_image ''gemini-pro'' False False
     = Inr (JStr ''after'', [], JNull)"
    by code_simp
  have three_s: "extract_result w_upload_fails ch0 r_image ''gemini-pro'' True False
     = Inr (JStr '''', [], JNull)"
    by code_simp
  show ?thesis by (intro conjI fn fs one three one_s three_s gn gs two two_s)
qed

text \<open>
  The claim as stated fails on a response whose first fragment carries a payload that
  does not decode: the whole extraction raises in both modes, although the next
  fragment is plain text and the upload backend accepts every file.
\<close>

theorem decode_failure_aborts_extraction:
  "extract_result w0 ch0 r_bad_image ''gemini-pro'' False False = Inl BinasciiError
   \<and> extract_result w0 ch0 r_bad_image ''gemini-pro'' True False = Inl BinasciiError
   \<and> extract_result w0 ch0 r_image ''gemini-pro'' False False
     = Inr (JStr (NL @ NL @ ''![image](http://img/2024/01/01/01234567.png)'' @ NL @ NL @ ''after''),
            [], JNull)"
  by code_simp

section \<open>Statelessness\<close>

















section \<open>Empty thought and absent thought\<close>

text \<open>Nothing after the thinking test reads \<^verbatim>\<open>SHOW_THINKING_PROCESS\<close>.\<close>

lemma flag_py_format [simp]:
  "py_format (w\<lparr>SHOW_THINKING_PROCESS := b\<rparr>) = py_format w"
  by (rule ext) (simp add: py_format_def split: json.splits)

lemma flag_py_b64decode [simp]:
  "py_b64decode (w\<lparr>SHOW_THINKING_PROCESS := b\<rparr>) = py_b64decode w"
  by (rule ext) (simp add: py_b64decode_def split: json.splits)

lemma flag_py_lower [simp]:
  "py_lower (w\<lparr>SHOW_THINKING_PROCESS := b\<rparr>) = py_lower w"
  by (rule ext) (simp add: py_lower_def split: json.splits)

lemma flag_py_strip [simp]:
  "py_strip (w\<lparr>SHOW_THINKING_PROCESS := b\<rparr>) = py_strip w"
  by (rule ext) (simp add: py_strip_def split: json.splits)

lemma flag_format_code_block [simp]:
  "format_code_block (w\<lparr>SHOW_THINKING_PROCESS := b\<rparr>) = format_code_block w"
  by (rule ext) (simp add: format_code_block_def)

lemma flag_select_uploader [simp]:
  "select_uploader (w\<lparr>SHOW_THINKING_PROCESS := b\<rparr>) = select_uploader w"
  by (simp add: select_uploader_def)

lemma flag_format_execution_result [simp]:
  "format_execution_result (w\<lparr>SHOW_THINKING_PROCESS := b\<rparr>) = format_execution_result w"
  by (rule ext) (simp add: format_execution_result_def)

lemma flag_extract_image_data [simp]:
  "extract_image_data (w\<lparr>SHOW_THINKING_PROCESS := b\<rparr>) = extract_image_data w"
  by (intro ext) (simp add: extract_image_data_def)

lemma flag_stream_part_text [simp]:
  "stream_part_text (w\<lparr>SHOW_THINKING_PROCESS := b\<rparr>) = stream_part_text w"
  by (intro ext) (simp add: stream_part_text_def cong: if_cong)

lemma flag_normal_part_text [simp]:
  "normal_part_text (w\<lparr>SHOW_THINKING_PROCESS := b\<rparr>) = normal_part_text w"
  by (intro ext) (simp add: normal_part_text_def cong: if_cong)

lemma flag_normal_parts_text [simp]:
  "normal_parts_text (w\<lparr>SHOW_THINKING_PROCESS := b\<rparr>) ch k t parts = normal_parts_text w ch k t parts"
  by (induction parts arbitrary: k t) (simp_all split: sum.splits prod.splits)

lemma flag_create_search_link [simp]:
  "create_search_link (w\<lparr>SHOW_THINKING_PROCESS := b\<rparr>) = create_search_link w"
  by (rule ext) (simp add: create_search_link_def)

lemma flag_search_links [simp]:
  "search_links (w\<lparr>SHOW_THINKING_PROCESS := b\<rparr>) t chunks = search_links w t chunks"
  by (induction chunks arbitrary: t) (simp_all split: sum.splits bool.splits cong: if_cong)

lemma flag_add_search_link_text [simp]:
  "add_search_link_text (w\<lparr>SHOW_THINKING_PROCESS := b\<rparr>) = add_search_link_text w"
  by (intro ext) (simp add: add_search_link_text_def search_link_test_def cong: if_cong)

lemma flag_tool_calls_loop_native:
  "tool_calls_loop (w\<lparr>SHOW_THINKING_PROCESS := b\<rparr>) ch True i k xs = tool_calls_loop w ch True i k xs"
  by (induction xs arbitrary: i k) (simp_all add: Let_def)

lemma flag_tool_calls_loop_target:
  "tool_calls_loop (w\<lparr>SHOW_THINKING_PROCESS := b\<rparr>) ch False i k xs = tool_calls_loop w ch False i k xs"
  by (induction xs arbitrary: i k) (simp_all add: target_tool_call_def Let_def)

lemma flag_tool_calls_loop [simp]:
  "tool_calls_loop (w\<lparr>SHOW_THINKING_PROCESS := b\<rparr>) ch g i k xs = tool_calls_loop w ch g i k xs"
  by (cases g) (simp_all add: flag_tool_calls_loop_native flag_tool_calls_loop_target)

lemma flag_extract_tool_calls [simp]:
  "extract_tool_calls (w\<lparr>SHOW_THINKING_PROCESS := b\<rparr>) = extract_tool_calls w"
  by (intro ext) (simp add: extract_tool_calls_def cong: if_cong)

lemma flag_extract_tail [simp]:
  "extract_tail (w\<lparr>SHOW_THINKING_PROCESS := b\<rparr>) = extract_tail w"
  by (intro ext) (simp add: extract_tail_def cong: if_cong)

lemma extract_tail_thought_eq:
  "extract_tail w ch model stream g cand rest th = Inr (tx, tcs, th') \<Longrightarrow> th' = th"
  by (auto simp: extract_tail_def bindE_eq_Inr split: if_splits)

lemma extract_tail_swap:
  "extract_tail w ch model stream g cand rest th = Inr (tx, tcs, th') \<Longrightarrow>
     extract_tail w ch model stream g cand rest th2 = Inr (tx, tcs, th2)"
  by (auto simp: extract_tail_def bindE_eq_Inr split: if_splits)

lemma extract_tail_swap_Inl:
  "extract_tail w ch model stream g cand rest th = Inl e \<Longrightarrow>
     extract_tail w ch model stream g cand rest th2 = Inl e"
  by (cases stream) (auto simp: extract_tail_def bindE_def split: sum.splits)

text \<open>
  Claim C10, as amended. When \<^verbatim>\<open>SHOW_THINKING_PROCESS\<close> is enabled and the first
  fragment is classified as thought but has no \<^verbatim>\<open>text\<close> field, extraction sets the
  thought to the empty string, where it leaves it unset (\<^verbatim>\<open>None\<close>) with the flag
  disabled. The full target builder gives the same output in both cases and never has a
  top-level \<^verbatim>\<open>thought\<close> field; given usage metadata that is a dictionary it returns
  whenever extraction does. The full native builder, when extraction yields no tool
  calls, puts the part \<^verbatim>\<open>{text: "", thought: true}\<close> before the text part for the
  empty thought and only the text part for the absent thought; when extraction yields
  tool calls, its parts are the tool calls alone in both cases.
\<close>

theorem empty_thought_states:
  assumes c: "dict_get response ''candidates'' JNull = JArr (JObj c # cs)"
      and ct: "dict_get c ''content'' (JObj []) = JObj ct"
      and ps: "dict_get ct ''parts'' (JArr []) = JArr (JObj p0 # ps)"
      and cl: "spec_thought_classified model (JObj p0 # ps)"
      and nt: "map_of p0 ''text'' = None"
      and fl: "SHOW_THINKING_PROCESS w"
  shows "(extract_result w ch response model stream gemini_format = Inr (tx, tcs, th) \<longrightarrow>
            th = JStr '''')
       \<and> (extract_result (w\<lparr>SHOW_THINKING_PROCESS := False\<rparr>) ch response model stream
             gemini_format = Inr (tx', tcs', th') \<longrightarrow> th' = JNull)
       \<and> handle_openai_normal_response w ch response model finish_reason usage
         = handle_openai_normal_response (w\<lparr>SHOW_THINKING_PROCESS := False\<rparr>) ch response
             model finish_reason usage
       \<and> (handle_openai_normal_response w ch response model finish_reason usage = Inr full \<longrightarrow>
            map_of full ''thought'' = None)
       \<and> (extract_result w ch response model False True = Inr (t, [], th'') \<longrightarrow>
            (\<exists>out. handle_gemini_normal_response w ch response model False = Inr out
                  \<and> content_parts out
                      = JArr [JObj [(''text'', JStr ''''), (''thought'', JBool True)],
                              JObj [(''text'', t)]])
          \<and> (\<exists>out. handle_gemini_normal_response (w\<lparr>SHOW_THINKING_PROCESS := False\<rparr>) ch
                       response model False = Inr out
                  \<and> content_parts out = JArr [JObj [(''text'', t)]]))
       \<and> (extract_result w ch response model False True = Inr (t2, tcs2, th2) \<longrightarrow>
          tcs2 \<noteq> [] \<longrightarrow>
            (\<exists>out. handle_gemini_normal_response w ch response model False = Inr out
                  \<and> content_parts out = JArr tcs2)
          \<and> (\<exists>out. handle_gemini_normal_response (w\<lparr>SHOW_THINKING_PROCESS := False\<rparr>) ch
                       response model False = Inr out
                  \<and> content_parts out = JArr tcs2))
       \<and> (extract_result w ch response model False False = Inr (t3, tcs3, th3) \<longrightarrow>
          is_dict usage \<longrightarrow>
            (\<exists>out. handle_openai_normal_response w ch response model finish_reason usage
                       = Inr out
                  \<and> handle_openai_normal_response (w\<lparr>SHOW_THINKING_PROCESS := False\<rparr>) ch
                       response model finish_reason usage = Inr out
                  \<and> choice0 out ''message''
                      = JObj [(''role'', JStr ''assistant''), (''content'', t3),
                              (''tool_calls'', JArr tcs3)]
                  \<and> map_of out ''thought'' = None))"
proof -
  have d: "dict_get p0 ''text'' (JStr '''') = JStr ''''"
    using nt by (simp add: dict_get_def)
  have on: "\<And>stream g. extract_result w ch response model stream g
              = extract_tail w ch model stream g (JObj c) ps (JStr '''')"
    using extract_result_shape[OF c ct ps, of w ch model] cl fl d by simp
  have off: "\<And>stream g. extract_result (w\<lparr>SHOW_THINKING_PROCESS := False\<rparr>) ch response
                model stream g
              = extract_tail w ch model stream g (JObj c) ps JNull"
    using extract_result_shape[OF c ct ps, of "w\<lparr>SHOW_THINKING_PROCESS := False\<rparr>" ch model] cl
    by simp
  have 1: "extract_result w ch response model stream gemini_format = Inr (tx, tcs, th) \<longrightarrow>
            th = JStr ''''"
    unfolding on by (auto dest: extract_tail_thought_eq)
  have 2: "extract_result (w\<lparr>SHOW_THINKING_PROCESS := False\<rparr>) ch response model stream
             gemini_format = Inr (tx', tcs', th') \<longrightarrow> th' = JNull"
    unfolding off by (auto dest: extract_tail_thought_eq)
  have 34: "handle_openai_normal_response w ch response model finish_reason usage
         = handle_openai_normal_response (w\<lparr>SHOW_THINKING_PROCESS := False\<rparr>) ch response
             model finish_reason usage
       \<and> (handle_openai_normal_response w ch response model finish_reason usage = Inr full \<longrightarrow>
            map_of full ''thought'' = None)"
  proof (cases "extract_tail w ch model False False (JObj c) ps JNull")
    case (Inl e)
    from extract_tail_swap_Inl[OF Inl]
    have "extract_tail w ch model False False (JObj c) ps (JStr '''') = Inl e" .
    with Inl show ?thesis
      by (simp add: handle_openai_normal_response_def on off)
  next
    case (Inr r)
    obtain a b x where r: "r = (a, b, x)" by (cases r)
    have n: "extract_tail w ch model False False (JObj c) ps JNull = Inr (a, b, JNull)"
      using extract_tail_swap[OF Inr[unfolded r]] .
    have e: "extract_tail w ch model False False (JObj c) ps (JStr '''') = Inr (a, b, JStr '''')"
      using extract_tail_swap[OF Inr[unfolded r]] .
    show ?thesis
      by (cases "usage_block usage")
         (auto simp: handle_openai_normal_response_def on off n e Let_def)
  qed
  have 5: "extract_result w ch response model False True = Inr (t, [], th'') \<longrightarrow>
            (\<exists>out. handle_gemini_normal_response w ch response model False = Inr out
                  \<and> content_parts out
                      = JArr [JObj [(''text'', JStr ''''), (''thought'', JBool True)],
                              JObj [(''text'', t)]])
          \<and> (\<exists>out. handle_gemini_normal_response (w\<lparr>SHOW_THINKING_PROCESS := False\<rparr>) ch
                       response model False = Inr out
                  \<and> content_parts out = JArr [JObj [(''text'', t)]])"
  proof
    assume "extract_result w ch response model False True = Inr (t, [], th'')"
    then have x: "extract_tail w ch model False True (JObj c) ps (JStr '''') = Inr (t, [], th'')"
      by (simp only: on)
    have e: "extract_tail w ch model False True (JObj c) ps (JStr '''') = Inr (t, [], JStr '''')"
      using extract_tail_swap[OF x] .
    have n: "extract_tail w ch model False True (JObj c) ps JNull = Inr (t, [], JNull)"
      using extract_tail_swap[OF x] .
    have a: "handle_gemini_normal_response w ch response model False
               = set_candidate_content response
                   (JObj [(''parts'', JArr [JObj [(''text'', JStr ''''), (''thought'', JBool True)],
                                               JObj [(''text'', t)]]),
                          (''role'', JStr ''model'')])"
      by (simp add: handle_gemini_normal_response_def on e)
    have b: "handle_gemini_normal_response (w\<lparr>SHOW_THINKING_PROCESS := False\<rparr>) ch response
               model False
               = set_candidate_content response
                   (JObj [(''parts'', JArr [JObj [(''text'', t)]]), (''role'', JStr ''model'')])"
      by (simp add: handle_gemini_normal_response_def off n)
    show "(\<exists>out. handle_gemini_normal_response w ch response model False = Inr out
                  \<and> content_parts out
                      = JArr [JObj [(''text'', JStr ''''), (''thought'', JBool True)],
                              JObj [(''text'', t)]])
          \<and> (\<exists>out. handle_gemini_normal_response (w\<lparr>SHOW_THINKING_PROCESS := False\<rparr>) ch
                       response model False = Inr out
                  \<and> content_parts out = JArr [JObj [(''text'', t)]])"
      unfolding a b set_candidate_content_shape[OF c]
      by (simp add: content_parts_update)
  qed
  have 6: "extract_result w ch response model False True = Inr (t2, tcs2, th2) \<longrightarrow>
          tcs2 \<noteq> [] \<longrightarrow>
            (\<exists>out. handle_gemini_normal_response w ch response model False = Inr out
                  \<and> content_parts out = JArr tcs2)
          \<and> (\<exists>out. handle_gemini_normal_response (w\<lparr>SHOW_THINKING_PROCESS := False\<rparr>) ch
                       response model False = Inr out
                  \<and> content_parts out = JArr tcs2)"
  proof (intro impI)
    assume "extract_result w ch response model False True = Inr (t2, tcs2, th2)"
       and ne: "tcs2 \<noteq> []"
    then have x: "extract_tail w ch model False True (JObj c) ps (JStr '''') = Inr (t2, tcs2, th2)"
      by (simp only: on)
    have e: "extract_tail w ch model False True (JObj c) ps (JStr '''') = Inr (t2, tcs2, JStr '''')"
      using extract_tail_swap[OF x] .
    have n: "extract_tail w ch model False True (JObj c) ps JNull = Inr (t2, tcs2, JNull)"
      using extract_tail_swap[OF x] .
    have a: "handle_gemini_normal_response w ch response model False
               = set_candidate_content response
                   (JObj [(''parts'', JArr tcs2), (''role'', JStr ''model'')])"
      using ne by (simp add: handle_gemini_normal_response_def on e)
    have b: "handle_gemini_normal_response (w\<lparr>SHOW_THINKING_PROCESS := False\<rparr>) ch response
               model False
               = set_candidate_content response
                   (JObj [(''parts'', JArr tcs2), (''role'', JStr ''model'')])"
      using ne by (simp add: handle_gemini_normal_response_def off n)
    show "(\<exists>out. handle_gemini_normal_response w ch response model False = Inr out
                  \<and> content_parts out = JArr tcs2)
          \<and> (\<exists>out. handle_gemini_normal_response (w\<lparr>SHOW_THINKING_PROCESS := False\<rparr>) ch
                       response model False = Inr out
                  \<and> content_parts out = JArr tcs2)"
      unfolding a b set_candidate_content_shape[OF c]
      by (simp add: content_parts_update)
  qed
  have 7: "extract_result w ch response model False False = Inr (t3, tcs3, th3) \<longrightarrow>
          is_dict usage \<longrightarrow>
            (\<exists>out. handle_openai_normal_response w ch response model finish_reason usage
                       = Inr out
                  \<and> handle_openai_normal_response (w\<lparr>SHOW_THINKING_PROCESS := False\<rparr>) ch
                       response model finish_reason usage = Inr out
                  \<and> choice0 out ''message''
                      = JObj [(''role'', JStr ''assistant''), (''content'', t3),
                              (''tool_calls'', JArr tcs3)]
                  \<and> map_of out ''thought'' = None)"
  proof (intro impI)
    assume x: "extract_result w ch response model False False = Inr (t3, tcs3, th3)"
       and u: "is_dict usage"
    from x have y: "extract_tail w ch model False False (JObj c) ps (JStr '''') = Inr (t3, tcs3, th3)"
      by (simp only: on)
    have "th3 = JStr ''''" using extract_tail_thought_eq[OF y] .
    with full_builder_total[OF x u, where finish_reason = finish_reason]
    obtain out where o: "handle_openai_normal_response w ch response model finish_reason usage
                           = Inr out"
      and m: "choice0 out ''message''
                = JObj [(''role'', JStr ''assistant''), (''content'', t3),
                        (''tool_calls'', JArr tcs3)]"
      and t: "map_of out ''thought'' = None"
      by auto
    from 34 o have "handle_openai_normal_response (w\<lparr>SHOW_THINKING_PROCESS := False\<rparr>) ch
                       response model finish_reason usage = Inr out"
      by simp
    with o m t show "\<exists>out. handle_openai_normal_response w ch response model finish_reason usage
                       = Inr out
                  \<and> handle_openai_normal_response (w\<lparr>SHOW_THINKING_PROCESS := False\<rparr>) ch
                       response model finish_reason usage = Inr out
                  \<and> choice0 out ''message''
                      = JObj [(''role'', JStr ''assistant''), (''content'', t3),
                              (''tool_calls'', JArr tcs3)]
                  \<and> map_of out ''thought'' = None"
      by blast
  qed
  show ?thesis by (intro conjI 1 2 34[THEN conjunct1] 34[THEN conjunct2] 5 6 7)
qed


theorem empty_thought_states_witness:
  "extract_result w0 ch0 r_thought_only ''gemini-pro'' False True
     = Inr (JStr ''answer'', [], JStr '''')
   \<and> handle_openai_normal_response w0 ch0 r_thought_only ''gemini-pro'' (JStr ''stop'') (JObj [])
     = Inr (sample_full (JStr ''answer'') [])
   \<and> handle_openai_normal_response (w0\<lparr>SHOW_THINKING_PROCESS := False\<rparr>) ch0 r_thought_only
        ''gemini-pro'' (JStr ''stop'') (JObj [])
     = Inr (sample_full (JStr ''answer'') [])
   \<and> map_of (sample_full (JStr ''answer'') []) ''thought'' = None
   \<and> (\<exists>out. handle_gemini_normal_response w0 ch0 r_thought_only ''gemini-pro'' False = Inr out
           \<and> content_parts out
               = JArr [JObj [(''text'', JStr ''''), (''thought'', JBool True)],
                       JObj [(''text'', JStr ''answer'')]])
   \<and> (\<exists>out. handle_gemini_normal_response (w0\<lparr>SHOW_THINKING_PROCESS := False\<rparr>) ch0
                r_thought_only ''gemini-pro'' False = Inr out
           \<and> content_parts out = JArr [JObj [(''text'', JStr ''answer'')]])
   \<and> extract_result w0 ch0 r_thought_only ''gemini-pro'' False False
     = Inr (JStr ''answer'', [], JStr '''')
   \<and> (\<exists>out. handle_openai_normal_response w0 ch0 r_thought_only ''gemini-pro'' (JStr ''stop'')
                (JObj []) = Inr out
           \<and> handle_openai_normal_response (w0\<lparr>SHOW_THINKING_PROCESS := False\<rparr>) ch0
                r_thought_only ''gemini-pro'' (JStr ''stop'') (JObj []) = Inr out
           \<and> choice0 out ''message''
               = JObj [(''role'', JStr ''assistant''), (''content'', JStr ''answer''),
                       (''tool_calls'', JArr [])]
           \<and> map_of out ''thought'' = None)
   \<and> extract_result w0 ch0 r_thought_call ''gemini-pro'' False True
     = Inr (JStr '''', [p_call], JStr '''')
   \<and> (\<exists>out. handle_gemini_normal_response w0 ch0 r_thought_call ''gemini-pro'' False = Inr out
           \<and> content_parts out = JArr [p_call])
   \<and> (\<exists>out. handle_gemini_normal_response (w0\<lparr>SHOW_THINKING_PROCESS := False\<rparr>) ch0
                r_thought_call ''gemini-pro'' False = Inr out
           \<and> content_parts out = JArr [p_call])"
proof -
  let ?p0 = "[(''thought'', JBool True)]"
  let ?ps = "[JObj [(''text'', JStr ''answer'')]]"
  have h1: "dict_get r_thought_only ''candidates'' JNull
              = JArr (JObj (mk_candidate (JObj ?p0 # ?ps)) # [])"
    unfolding r_thought_only_def by (rule mk_response_candidates)
  have cl: "spec_thought_classified ''gemini-pro'' (JObj ?p0 # ?ps)" by code_simp
  have nt: "map_of ?p0 ''text'' = None" by code_simp
  have fl: "SHOW_THINKING_PROCESS w0" by code_simp
  have u: "is_dict (JObj [])" by simp
  have e: "extract_result w0 ch0 r_thought_only ''gemini-pro'' False True
             = Inr (JStr ''answer'', [], JStr '''')"
    by code_simp
  have e3: "extract_result w0 ch0 r_thought_only ''gemini-pro'' False False
             = Inr (JStr ''answer'', [], JStr '''')"
    by code_simp
  have f: "handle_openai_normal_response w0 ch0 r_thought_only ''gemini-pro'' (JStr ''stop'')
             (JObj []) = Inr (sample_full (JStr ''answer'') [])"
    by code_simp
  note t = empty_thought_states[OF h1 mk_candidate_content mk_content_parts cl nt fl,
             where ch = ch0 and finish_reason = "JStr ''stop''" and usage = "JObj []"
               and full = "sample_full (JStr ''answer'') []" and t = "JStr ''answer''"
               and th'' = "JStr ''''" and ?t3.0 = "JStr ''answer''" and ?tcs3.0 = "[]"
               and ?th3.0 = "JStr ''''"]
  from t have q: "handle_openai_normal_response w0 ch0 r_thought_only ''gemini-pro'' (JStr ''stop'')
             (JObj [])
           = handle_openai_normal_response (w0\<lparr>SHOW_THINKING_PROCESS := False\<rparr>) ch0
               r_thought_only ''gemini-pro'' (JStr ''stop'') (JObj [])"
    by blast
  have g: "handle_openai_normal_response (w0\<lparr>SHOW_THINKING_PROCESS := False\<rparr>) ch0
             r_thought_only ''gemini-pro'' (JStr ''stop'') (JObj [])
           = Inr (sample_full (JStr ''answer'') [])"
    using q[symmetric] f by (rule trans)
  from t f have m: "map_of (sample_full (JStr ''answer'') []) ''thought'' = None"
    by blast
  from t e
  have x: "\<exists>out. handle_gemini_normal_response w0 ch0 r_thought_only ''gemini-pro'' False = Inr out
           \<and> content_parts out
               = JArr [JObj [(''text'', JStr ''''), (''thought'', JBool True)],
                       JObj [(''text'', JStr ''answer'')]]"
   and y: "\<exists>out. handle_gemini_normal_response (w0\<lparr>SHOW_THINKING_PROCESS := False\<rparr>) ch0
                r_thought_only ''gemini-pro'' False = Inr out
           \<and> content_parts out = JArr [JObj [(''text'', JStr ''answer'')]]"
    by blast+
  from t e3 u
  have z: "\<exists>out. handle_openai_normal_response w0 ch0 r_thought_only ''gemini-pro'' (JStr ''stop'')
                (JObj []) = Inr out
           \<and> handle_openai_normal_response (w0\<lparr>SHOW_THINKING_PROCESS := False\<rparr>) ch0
                r_thought_only ''gemini-pro'' (JStr ''stop'') (JObj []) = Inr out
           \<and> choice0 out ''message''
               = JObj [(''role'', JStr ''assistant''), (''content'', JStr ''answer''),
                       (''tool_calls'', JArr [])]
           \<and> map_of out ''thought'' = None"
    by blast
  have h2: "dict_get r_thought_call ''candidates'' JNull
              = JArr (JObj (mk_candidate (JObj ?p0 # [p_call])) # [])"
    unfolding r_thought_call_def by (rule mk_response_candidates)
  have cl2: "spec_thought_classified ''gemini-pro'' (JObj ?p0 # [p_call])" by code_simp
  have e2: "extract_result w0 ch0 r_thought_call ''gemini-pro'' False True
             = Inr (JStr '''', [p_call], JStr '''')"
    by code_simp
  have ne: "[p_call] \<noteq> []" by simp
  note t2 = empty_thought_states[OF h2 mk_candidate_content mk_content_parts cl2 nt fl,
             where ch = ch0 and ?t2.0 = "JStr ''''" and ?tcs2.0 = "[p_call]"
               and ?th2.0 = "JStr ''''"]
  from t2 e2 ne
  have x2: "\<exists>out. handle_gemini_normal_response w0 ch0 r_thought_call ''gemini-pro'' False = Inr out
           \<and> content_parts out = JArr [p_call]"
   and y2: "\<exists>out. handle_gemini_normal_response (w0\<lparr>SHOW_THINKING_PROCESS := False\<rparr>) ch0
                r_thought_call ''gemini-pro'' False = Inr out
           \<and> content_parts out = JArr [p_call]"
    by blast+
  show ?thesis by (intro conjI e f g m x y e3 z e2 x2 y2)
qed

text \<open>
  The claim as stated fails when the skipped thought fragment is followed by a function
  call: the parts of the native output are the tool calls alone, without a thought part.
\<close>

theorem tool_calls_hide_empty_thought:
  "extract_result w0 ch0 r_thought_call ''gemini-pro'' False True
     = Inr (JStr '''', [p_call], JStr '''')
   \<and> map_sum id content_parts
         (handle_gemini_normal_response w0 ch0 r_thought_call ''gemini-pro'' False)
     = Inr (JArr [p_call])"
  by code_simp

section \<open>Round trip through the native builder\<close>

lemma normal_extract_text:
  assumes "extract_result w ch response model False g = Inr (tx, tcs, th)"
      and "dict_get response ''candidates'' JNull = JArr (JObj c # cs)"
  shows "\<exists>t. add_search_link_text w model (JObj c) (JStr t) = Inr tx"
proof -
  have i: "map_of response ''candidates'' = Some (JArr (JObj c # cs))"
    using dict_get_truthy_Some[of response "''candidates''"] assms(2) by simp
  show ?thesis
    using assms(1) unfolding extract_result_def
    by (auto simp: assms(2) i bindE_eq_Inr split: if_splits prod.splits)
qed

lemma add_search_link_text_off:
  "search_link_test w model cand = Inr False \<Longrightarrow> add_search_link_text w model cand t = Inr t"
  by (simp add: add_search_link_text_def)

lemma search_link_test_update:
  "search_link_test w model (JObj (AList.update ''content'' v c)) = search_link_test w model (JObj c)"
  by (simp add: search_link_test_def update_conv' cong: if_cong)

text \<open>
  Claim C8, as amended. For every response whose first candidate is a dictionary to which
  no citation applies (the flag \<^verbatim>\<open>SHOW_SEARCH_LINK\<close> is off, or the model does not end in
  \<^verbatim>\<open>-search\<close>, or the candidate has no grounding chunks), and whose non-streaming
  native-format extraction yields no tool calls and no thought: the extraction of the
  full native builder's output, with the same model and flags, yields the same text
  again, with no tool calls and no thought.
\<close>

theorem plain_round_trip:
  assumes c: "dict_get response ''candidates'' JNull = JArr (JObj c # cs)"
      and off: "search_link_test w model (JObj c) = Inr False"
      and e: "extract_result w ch response model False True = Inr (tx, [], JNull)"
      and b: "handle_gemini_normal_response w ch response model False = Inr response'"
  shows "extract_result w ch' response' model False True = Inr (tx, [], JNull)"
proof -
  obtain t where "add_search_link_text w model (JObj c) (JStr t) = Inr tx"
    using normal_extract_text[OF e c] by blast
  then have tx: "tx = JStr t"
    using add_search_link_text_off[OF off, of "JStr t"] by simp
  let ?content = "JObj [(''parts'', JArr [JObj [(''text'', JStr t)]]), (''role'', JStr ''model'')]"
  let ?c' = "AList.update ''content'' ?content c"
  have r: "response' = AList.update ''candidates'' (JArr (JObj ?c' # cs)) response"
    using b by (simp add: handle_gemini_normal_response_def e tx set_candidate_content_shape[OF c])
  have h1: "dict_get response' ''candidates'' JNull = JArr (JObj ?c' # cs)"
    by (simp add: r dict_get_def update_conv')
  have h2: "dict_get ?c' ''content'' (JObj []) =
              JObj [(''parts'', JArr [JObj [(''text'', JStr t)]]), (''role'', JStr ''model'')]"
    by (simp add: dict_get_def update_conv')
  have h3: "dict_get [(''parts'', JArr [JObj [(''text'', JStr t)]]), (''role'', JStr ''model'')]
              ''parts'' (JArr []) = JArr (JObj [(''text'', JStr t)] # [])"
    by (simp add: dict_get_def)
  have n: "\<not> spec_thought_classified model (JObj [(''text'', JStr t)] # [])"
    by (simp add: spec_thought_classified_def dict_get_def)
  have off': "search_link_test w model (JObj ?c') = Inr False"
    by (simp only: search_link_test_update off)
  have p: "normal_part_text w ch' 0 (JObj [(''text'', JStr t)]) = Inr (t, 0)"
    by (simp add: normal_part_text_def dict_get_def)
  have tc: "extract_tool_calls w ch' (JArr [JObj [(''text'', JStr t)]]) True = []"
    by (simp add: extract_tool_calls_def dict_get_def)
  show ?thesis
    using extract_result_shape[OF h1 h2 h3, of w ch' model False True] n
    by (simp add: extract_tail_def p tc add_search_link_text_off[OF off'] tx)
qed

theorem plain_round_trip_witness:
  "search_link_test w0 ''gemini-pro'' (JObj (mk_candidate [JObj [(''text'', JStr ''Hello'')]]))
     = Inr False
   \<and> extract_result w0 ch0 r_hello ''gemini-pro'' False True = Inr (JStr ''Hello'', [], JNull)
   \<and> handle_gemini_normal_response w0 ch0 r_hello ''gemini-pro'' False = Inr r_hello
   \<and> extract_result w0 ch1 r_hello ''gemini-pro'' False True = Inr (JStr ''Hello'', [], JNull)"
proof -
  have h1: "dict_get r_hello ''candidates'' JNull
              = JArr (JObj (mk_candidate [JObj [(''text'', JStr ''Hello'')]]) # [])"
    unfolding r_hello_def by (rule mk_response_candidates)
  have off: "search_link_test w0 ''gemini-pro''
               (JObj (mk_candidate [JObj [(''text'', JStr ''Hello'')]])) = Inr False"
    by code_simp
  have e: "extract_result w0 ch0 r_hello ''gemini-pro'' False True
             = Inr (JStr ''Hello'', [], JNull)"
    by code_simp
  have b: "handle_gemini_normal_response w0 ch0 r_hello ''gemini-pro'' False = Inr r_hello"
    by code_simp
  from plain_round_trip[OF h1 off e b, of ch1]
  have "extract_result w0 ch1 r_hello ''gemini-pro'' False True = Inr (JStr ''Hello'', [], JNull)" .
  then show ?thesis by (intro conjI off e b)
qed

text \<open>
  The claim as stated fails when a citation applies: the builder keeps the candidate's
  grounding metadata, so the second extraction appends the citation section once more.
\<close>

theorem citations_repeat_on_round_trip:
  "extract_result w0 ch0 r_grounded ''gemini-search'' False True
     = Inr (JStr (''hi'' @ CITATION_HEADER), [], JNull)
   \<and> handle_gemini_normal_response w0 ch0 r_grounded ''gemini-search'' False = Inr r_grounded_out
   \<and> extract_result w0 ch0 r_grounded_out ''gemini-search'' False True
     = Inr (JStr (''hi'' @ CITATION_HEADER @ CITATION_HEADER), [], JNull)
   \<and> extract_result w0 ch0 r_grounded_out ''gemini-search'' False True
       \<noteq> extract_result w0 ch0 r_grounded ''gemini-search'' False True"
  by code_simp

end
